theory Spec2Isabelle
  imports Complex_Main "HOL-Library.AList" "HOL-Library.List_Lexorder" "HOL-Library.Product_Lexorder"
begin

section \<open>Common ground: floats, exceptions, effects\<close>

text \<open>
  Python floats are modelled as \<open>fl\<close>: a real number, or one of the three special
  values of IEEE arithmetic. Arithmetic on finite values is exact (no rounding, no
  overflow, no signed zero); the special values follow IEEE: anything with NaN is NaN,
  \<open>inf - inf\<close> and \<open>0 * inf\<close> are NaN, a comparison with NaN is false. numpy's float
  division by zero gives an infinity or NaN, never an exception.
\<close>

datatype fl = Fin real | PInf | NInf | NaN

fun fl_neg :: "fl \<Rightarrow> fl" where
  "fl_neg (Fin x) = Fin (- x)"
| "fl_neg PInf = NInf"
| "fl_neg NInf = PInf"
| "fl_neg NaN = NaN"

fun fl_add :: "fl \<Rightarrow> fl \<Rightarrow> fl" where
  "fl_add NaN _ = NaN"
| "fl_add _ NaN = NaN"
| "fl_add (Fin x) (Fin y) = Fin (x + y)"
| "fl_add PInf NInf = NaN"
| "fl_add NInf PInf = NaN"
| "fl_add PInf _ = PInf"
| "fl_add _ PInf = PInf"
| "fl_add NInf _ = NInf"
| "fl_add _ NInf = NInf"

definition fl_sub :: "fl \<Rightarrow> fl \<Rightarrow> fl" where
  "fl_sub x y = fl_add x (fl_neg y)"

fun fl_sgn :: "fl \<Rightarrow> int option" where
  "fl_sgn (Fin x) = Some (if x < 0 then - 1 else if x = 0 then 0 else 1)"
| "fl_sgn PInf = Some 1"
| "fl_sgn NInf = Some (- 1)"
| "fl_sgn NaN = None"

definition fl_signed_inf :: "int \<Rightarrow> fl" where
  "fl_signed_inf s = (if s = 0 then NaN else if s < 0 then NInf else PInf)"

fun fl_mul :: "fl \<Rightarrow> fl \<Rightarrow> fl" where
  "fl_mul (Fin x) (Fin y) = Fin (x * y)"
| "fl_mul x y =
     (case (fl_sgn x, fl_sgn y) of
        (Some s, Some t) \<Rightarrow> fl_signed_inf (s * t)
      | _ \<Rightarrow> NaN)"

fun fl_div :: "fl \<Rightarrow> fl \<Rightarrow> fl" where
  "fl_div NaN _ = NaN"
| "fl_div _ NaN = NaN"
| "fl_div (Fin x) (Fin y) =
     (if y = 0 then fl_signed_inf (if x < 0 then - 1 else if x = 0 then 0 else 1)
      else Fin (x / y))"
| "fl_div (Fin x) _ = Fin 0"
| "fl_div x (Fin y) =
     (case fl_sgn x of
        Some s \<Rightarrow> fl_signed_inf (if y < 0 then - s else s)
      | None \<Rightarrow> NaN)"
| "fl_div _ _ = NaN"

fun fl_abs :: "fl \<Rightarrow> fl" where
  "fl_abs (Fin x) = Fin \<bar>x\<bar>"
| "fl_abs PInf = PInf"
| "fl_abs NInf = PInf"
| "fl_abs NaN = NaN"

fun fl_sqrt :: "fl \<Rightarrow> fl" where
  "fl_sqrt (Fin x) = (if x < 0 then NaN else Fin (sqrt x))"
| "fl_sqrt PInf = PInf"
| "fl_sqrt _ = NaN"

fun fl_lt :: "fl \<Rightarrow> fl \<Rightarrow> bool" where
  "fl_lt NaN _ = False"
| "fl_lt _ NaN = False"
| "fl_lt (Fin x) (Fin y) = (x < y)"
| "fl_lt PInf _ = False"
| "fl_lt _ PInf = True"
| "fl_lt NInf NInf = False"
| "fl_lt NInf _ = True"
| "fl_lt _ NInf = False"

definition fl_gt :: "fl \<Rightarrow> fl \<Rightarrow> bool" where
  "fl_gt x y = fl_lt y x"

fun fl_le :: "fl \<Rightarrow> fl \<Rightarrow> bool" where
  "fl_le NaN _ = False"
| "fl_le _ NaN = False"
| "fl_le x y = (\<not> fl_lt y x)"

fun isfinite :: "fl \<Rightarrow> bool" where
  "isfinite (Fin _) = True"
| "isfinite _ = False"

fun isinf :: "fl \<Rightarrow> bool" where
  "isinf PInf = True"
| "isinf NInf = True"
| "isinf _ = False"

text \<open>Python's \<open>sum\<close> starts from the integer 0 and adds from the left.\<close>

definition py_sum :: "fl list \<Rightarrow> fl" where
  "py_sum xs = foldl fl_add (Fin 0) xs"

text \<open>
  The exceptions the modelled code can raise. \<open>DivergentIntegralError\<close> carries the
  offending interval (its handle).
\<close>

datatype error =
    ValueError
  | TypeError
  | KeyError
  | IndexError
  | AttributeError
  | AssertionError
  | StopIteration
  | ZeroDivisionError
  | LinAlgError
  | DivergentIntegralError nat

text \<open>
  A method that mutates its object is a function from the state before to an outcome and
  the state after; when it raises, the state after is the one the exception leaves
  behind, mutated so far.
\<close>

type_synonym ('s, 'a) prog = "'s \<Rightarrow> (error + 'a) \<times> 's"

definition ret :: "'a \<Rightarrow> ('s, 'a) prog" where
  "ret x = (\<lambda>s. (Inr x, s))"

definition raise :: "error \<Rightarrow> ('s, 'a) prog" where
  "raise e = (\<lambda>s. (Inl e, s))"

definition bind :: "('s, 'a) prog \<Rightarrow> ('a \<Rightarrow> ('s, 'b) prog) \<Rightarrow> ('s, 'b) prog" where
  "bind m f = (\<lambda>s. case m s of (Inl e, s') \<Rightarrow> (Inl e, s') | (Inr x, s') \<Rightarrow> f x s')"

definition modify :: "('s \<Rightarrow> 's) \<Rightarrow> ('s, unit) prog" where
  "modify f = (\<lambda>s. (Inr (), f s))"

definition gets :: "('s \<Rightarrow> 'a) \<Rightarrow> ('s, 'a) prog" where
  "gets f = (\<lambda>s. (Inr (f s), s))"

text \<open>A \<open>for\<close> loop over a list whose body may raise.\<close>

fun for_each :: "'a list \<Rightarrow> ('a \<Rightarrow> ('s, unit) prog) \<Rightarrow> ('s, unit) prog" where
  "for_each [] body = ret ()"
| "for_each (x # xs) body = bind (body x) (\<lambda>_. for_each xs body)"

text \<open>Dictionaries whose order of insertion is kept are association lists.\<close>

definition dict_keys :: "('k \<times> 'v) list \<Rightarrow> 'k list" where
  "dict_keys d = map fst d"

definition dict_has :: "('k \<times> 'v) list \<Rightarrow> 'k \<Rightarrow> bool" where
  "dict_has d k = (k \<in> set (dict_keys d))"

definition dict_get :: "('k \<times> 'v) list \<Rightarrow> 'k \<Rightarrow> 'v option" where
  "dict_get d k = map_of d k"

definition dict_set :: "('k \<times> 'v) list \<Rightarrow> 'k \<Rightarrow> 'v \<Rightarrow> ('k \<times> 'v) list" where
  "dict_set d k v = AList.update k v d"

definition dict_pop :: "('k \<times> 'v) list \<Rightarrow> 'k \<Rightarrow> ('k \<times> 'v) list" where
  "dict_pop d k = AList.delete k d"


section \<open>numpy on lists of reals\<close>

text \<open>
  The numpy functions the source calls, by their documented meaning on exact reals:
  \<open>np.linalg.det\<close> (here by expansion along the first row), \<open>np.std\<close> with
  \<open>axis=0\<close> (the population standard deviation of each column), \<open>np.linalg.norm\<close>
  (the 2-norm). A scalar function value is a vector with one component: \<open>np.std\<close> and
  the norm give the same number for both. For an empty list of values numpy returns NaN
  with a warning; \<open>np_std\<close> is meant for non-empty lists.
\<close>

definition drop_nth :: "nat \<Rightarrow> 'a list \<Rightarrow> 'a list" where
  "drop_nth j xs = take j xs @ drop (Suc j) xs"

function det :: "real list list \<Rightarrow> real" where
  "det [] = 1"
| "det (r # rs) =
     sum_list (map (\<lambda>j. (- 1) ^ j * (r ! j) * det (map (drop_nth j) rs)) [0..<length r])"
  by pat_completeness auto
termination
  by (relation "measure length") auto

definition np_mean :: "real list \<Rightarrow> real" where
  "np_mean xs = sum_list xs / real (length xs)"

definition np_std :: "real list \<Rightarrow> real" where
  "np_std xs = sqrt (np_mean (map (\<lambda>x. \<bar>x - np_mean xs\<bar> ^ 2) xs))"

definition np_std_axis0 :: "real list list \<Rightarrow> real list" where
  "np_std_axis0 ys = map np_std (transpose ys)"

definition np_norm :: "real list \<Rightarrow> real" where
  "np_norm v = sqrt (sum_list (map (\<lambda>x. x ^ 2) v))"

section \<open>The triangulating learner\<close>

type_synonym point = "real list"
type_synonym simplex = "nat list"

subsection \<open>Loss functions\<close>

text \<open>
  \<open>volume\<close>: \<open>np.subtract(simplex[:-1], simplex[-1])\<close> needs rows of one length, and
  \<open>np.linalg.det\<close> a square matrix; with a single vertex the difference is not a matrix.
\<close>

definition volume :: "point list \<Rightarrow> error + real" where
  "volume simplex =
     (case simplex of
        [] \<Rightarrow> Inl IndexError
      | [v] \<Rightarrow> Inl (if v = [] then LinAlgError else ValueError)
      | _ \<Rightarrow>
        if \<not> list_all (\<lambda>v. length v = length (last simplex)) simplex then Inl ValueError
        else
          let matrix = map (\<lambda>v. map2 (-) v (last simplex)) (butlast simplex);
              dim = length simplex - 1
          in if length (last simplex) \<noteq> length matrix then Inl LinAlgError
             else Inr (\<bar>det matrix\<bar> / fact dim))"

definition uniform_loss :: "point list \<Rightarrow> real list list \<Rightarrow> error + real" where
  "uniform_loss simplex ys = volume simplex"

definition std_loss :: "point list \<Rightarrow> real list list \<Rightarrow> error + real" where
  "std_loss simplex ys =
     (let r = np_norm (np_std_axis0 ys) in
      case volume simplex of
        Inl e \<Rightarrow> Inl e
      | Inr vol \<Rightarrow>
          let dim = length simplex - 1
          in if dim = 0 then Inl ZeroDivisionError
             else Inr (r * (vol powr (1 / real dim)) + vol))"

definition default_loss :: "point list \<Rightarrow> real list list \<Rightarrow> error + real" where
  "default_loss simplex ys = std_loss simplex ys"

text \<open>
  The specification's formula for the default loss, written from its words: the matrix
  \<open>M\<close> of edge vectors from the last vertex, entry by entry, the volume
  \<open>|det M| / dim!\<close>, and the loss \<open>\<parallel>std(values)\<parallel> * volume^(1/dim) + volume\<close> with the
  \<open>dim\<close>-th root.
\<close>

definition spec_edge_matrix :: "point list \<Rightarrow> real list list" where
  "spec_edge_matrix simplex =
     (let d = length simplex - 1
      in map (\<lambda>i. map (\<lambda>j. simplex ! i ! j - simplex ! d ! j) [0..<d]) [0..<d])"

definition spec_volume :: "point list \<Rightarrow> real" where
  "spec_volume simplex = \<bar>det (spec_edge_matrix simplex)\<bar> / fact (length simplex - 1)"

definition spec_std_loss :: "point list \<Rightarrow> real list list \<Rightarrow> real" where
  "spec_std_loss simplex ys =
     np_norm (np_std_axis0 ys) * root (length simplex - 1) (spec_volume simplex)
       + spec_volume simplex"





subsection \<open>The triangulation primitive and the learner's state\<close>

text \<open>
  The class \<open>Triangulation\<close> (module \<open>triangulation\<close>) is not among the sources. Its
  methods are parameters of the model, over an abstract type \<open>'tri\<close> of triangulation
  objects, with the signatures of the contract in the specification (section 6). A method
  that mutates the triangulation returns the new one; a set it returns or exposes is the
  list of its elements in the order Python iterates them. \<open>tri_volume\<close> returns a Python
  float, so dividing by a zero volume raises \<open>ZeroDivisionError\<close>.

  Also parameters: \<open>np.linalg.matrix_rank\<close>, the first simplex of
  \<open>scipy.spatial.Delaunay\<close>, and the stream of \<open>random.Random(seed).random()\<close>
  (\<open>py_random seed k\<close> is the \<open>k\<close>-th number drawn).
\<close>

record 'tri triangulation =
  tri_new :: "point list \<Rightarrow> 'tri"
  tri_add_point :: "'tri \<Rightarrow> point \<Rightarrow> simplex option \<Rightarrow> real list option
                     \<Rightarrow> 'tri \<times> simplex list \<times> simplex list"
  tri_locate_point :: "'tri \<Rightarrow> point \<Rightarrow> simplex"
  tri_point_in_simplex :: "'tri \<Rightarrow> point \<Rightarrow> simplex \<Rightarrow> bool"
  tri_get_vertices :: "'tri \<Rightarrow> simplex \<Rightarrow> point list"
  tri_vertex_to_simplices :: "'tri \<Rightarrow> nat \<Rightarrow> simplex list"
  tri_volume :: "'tri \<Rightarrow> simplex \<Rightarrow> real"
  tri_simplices :: "'tri \<Rightarrow> simplex list"
  tri_vertices :: "'tri \<Rightarrow> point list"

record 'tri env =
  prim :: "'tri triangulation"
  matrix_rank :: "real list list \<Rightarrow> nat"
  delaunay_first_simplex :: "point list \<Rightarrow> nat list"
  py_random :: "nat \<Rightarrow> nat \<Rightarrow> real"

text \<open>
  The attributes of a \<open>TriangulatingLearner\<close>. \<open>tl_data\<close> is the \<open>OrderedDict\<close>
  \<open>data\<close>, \<open>tl_tri\<close> the attribute \<open>_tri\<close> (\<open>None\<close> until built), \<open>tl_random\<close> the
  private generator: its seed and how many numbers were drawn.
\<close>

record 'tri tlearner =
  tl_ndim :: nat
  tl_loss_per_simplex :: "point list \<Rightarrow> real list list \<Rightarrow> error + real"
  tl_bounds :: "(real \<times> real) list"
  tl_data :: "(point \<times> real list) list"
  tl_pending :: "point set"
  tl_bounds_points :: "point list"
  tl_tri :: "'tri option"
  tl_losses :: "(simplex \<times> real) list"
  tl_pending_to_simplex :: "(point \<times> simplex) list"
  tl_subtriangulations :: "(simplex \<times> 'tri) list"
  tl_transform :: "real list"
  tl_random :: "nat \<times> nat"



definition tl_points :: "'tri tlearner \<Rightarrow> point list" where
  "tl_points s = dict_keys (tl_data s)"

definition find_initial_simplex :: "'tri env \<Rightarrow> point list \<Rightarrow> nat \<Rightarrow> error + nat list option" where
  "find_initial_simplex env pts nd =
     (case pts of
        [] \<Rightarrow> Inl IndexError
      | origin # others \<Rightarrow>
          let vecs = map (\<lambda>p. map2 (-) p origin) others
          in if matrix_rank env vecs < nd then Inr None
             else Inr (Some (delaunay_first_simplex env pts)))"

text \<open>
  The property \<open>tri\<close>. When it builds the triangulation it stores it in \<open>_tri\<close> and
  falls off the end of the function: the access evaluates to \<open>None\<close>.
\<close>

definition initial_triangulation :: "'tri env \<Rightarrow> 'tri tlearner \<Rightarrow> nat list \<Rightarrow> 'tri" where
  "initial_triangulation env s initial_simplex =
     (let pts = map (\<lambda>i. tl_points s ! i) initial_simplex;
          t0 = tri_new (prim env) pts;
          to_add = map snd (filter (\<lambda>(i, p). i \<notin> set initial_simplex)
                              (enumerate 0 (tl_points s)))
      in foldl (\<lambda>t p. fst (tri_add_point (prim env) t p None (Some (tl_transform s))))
           t0 to_add)"

definition tri_prop :: "'tri env \<Rightarrow> ('tri tlearner, 'tri option) prog" where
  "tri_prop env = (\<lambda>s.
     case tl_tri s of
       Some t \<Rightarrow> (Inr (Some t), s)
     | None \<Rightarrow>
         if length (tl_data s) < 2 then (Inr None, s)
         else
           (case find_initial_simplex env (tl_points s) (tl_ndim s) of
              Inl e \<Rightarrow> (Inl e, s)
            | Inr None \<Rightarrow> (Inr None, s)
            | Inr (Some initial_simplex) \<Rightarrow>
                (Inr None, s\<lparr>tl_tri := Some (initial_triangulation env s initial_simplex)\<rparr>)))"

text \<open>An attribute access on what \<open>self.tri\<close> evaluates to: on \<open>None\<close> it raises.\<close>

definition the_tri :: "'tri env \<Rightarrow> ('tri tlearner, 'tri) prog" where
  "the_tri env =
     bind (tri_prop env) (\<lambda>t. case t of None \<Rightarrow> raise AttributeError | Some t \<Rightarrow> ret t)"

definition simplex_exists :: "'tri env \<Rightarrow> simplex \<Rightarrow> ('tri tlearner, bool) prog" where
  "simplex_exists env simplex =
     bind (the_tri env) (\<lambda>t. ret (sort simplex \<in> set (tri_simplices (prim env) t)))"

text \<open>The body of the loop of \<open>_tell_pending\<close> over the neighbouring simplices.\<close>

definition tell_pending_in :: "'tri env \<Rightarrow> point \<Rightarrow> simplex \<Rightarrow> ('tri tlearner, unit) prog" where
  "tell_pending_in env pt simpl =
     bind (the_tri env) (\<lambda>t.
       if tri_point_in_simplex (prim env) t pt simpl then
         (\<lambda>s. case dict_get (tl_subtriangulations s) simpl of
                 None \<Rightarrow>
                   let vertices = tri_get_vertices (prim env) t simpl;
                       tr = tri_new (prim env) vertices
                   in (case tri_simplices (prim env) tr of
                         [] \<Rightarrow> (Inl StopIteration,
                                 s\<lparr>tl_subtriangulations :=
                                     dict_set (tl_subtriangulations s) simpl tr\<rparr>)
                       | first # _ \<Rightarrow>
                           (Inr (),
                            s\<lparr>tl_subtriangulations :=
                                dict_set (tl_subtriangulations s) simpl
                                  (fst (tri_add_point (prim env) tr pt (Some first) None))\<rparr>))
               | Some tr \<Rightarrow>
                   (Inr (),
                    s\<lparr>tl_subtriangulations :=
                        dict_set (tl_subtriangulations s) simpl
                          (fst (tri_add_point (prim env) tr pt None None))\<rparr>))
       else ret ())"

text \<open>
  \<open>_tell_pending\<close>: the point joins \<open>_pending\<close>; then, when there is a triangulation,
  \<open>place_pending\<close> puts it into the sub-triangulations of the simplices around it.
\<close>

definition place_pending :: "'tri env \<Rightarrow> point \<Rightarrow> simplex option \<Rightarrow> ('tri tlearner, unit) prog" where
  "place_pending env pt simplex =
     bind (tri_prop env) (\<lambda>t.
       case t of
         None \<Rightarrow> ret ()
       | Some _ \<Rightarrow>
           bind (case simplex of
                   Some sx \<Rightarrow>
                     if sx \<noteq> [] then ret sx
                     else bind (the_tri env) (\<lambda>t. ret (tri_locate_point (prim env) t pt))
                 | None \<Rightarrow> bind (the_tri env) (\<lambda>t. ret (tri_locate_point (prim env) t pt)))
             (\<lambda>sx.
               if sx = [] then ret ()
               else
                 bind (the_tri env) (\<lambda>t.
                   let neighbours =
                         remdups (concat (map (tri_vertex_to_simplices (prim env) t) sx))
                   in for_each neighbours (tell_pending_in env pt))))"

definition tell_pending :: "'tri env \<Rightarrow> point \<Rightarrow> simplex option \<Rightarrow> ('tri tlearner, unit) prog" where
  "tell_pending env pt simplex =
     bind (modify (\<lambda>s. s\<lparr>tl_pending := insert pt (tl_pending s)\<rparr>)) (\<lambda>_.
       place_pending env pt simplex)"


subsection \<open>tell and update_losses\<close>

text \<open>The values of the vertices, \<open>[self.data[tuple(v)] for v in vertices]\<close>.\<close>

fun lookup_all :: "('k \<times> 'v) list \<Rightarrow> 'k list \<Rightarrow> error + 'v list" where
  "lookup_all d [] = Inr []"
| "lookup_all d (k # ks) =
     (case dict_get d k of
        None \<Rightarrow> Inl KeyError
      | Some v \<Rightarrow> (case lookup_all d ks of Inl e \<Rightarrow> Inl e | Inr vs \<Rightarrow> Inr (v # vs)))"

text \<open>
  The first loop of \<open>update_losses\<close>: drop the deleted simplices' losses and
  sub-triangulations, collecting the vertices of the latter.
\<close>

fun drop_deleted :: "'tri env \<Rightarrow> simplex list \<Rightarrow> 'tri tlearner \<Rightarrow> point list
                       \<Rightarrow> 'tri tlearner \<times> point list" where
  "drop_deleted env [] s unbound = (s, unbound)"
| "drop_deleted env (simplex # rest) s unbound =
     (let s1 = s\<lparr>tl_losses := dict_pop (tl_losses s) simplex,
                  tl_subtriangulations := dict_pop (tl_subtriangulations s) simplex\<rparr>
      in case dict_get (tl_subtriangulations s) simplex of
           None \<Rightarrow> drop_deleted env rest s1 unbound
         | Some subtri \<Rightarrow>
             drop_deleted env rest s1 (unbound @ tri_vertices (prim env) subtri))"

text \<open>The inner loop: try to put an unbound pending point into a new simplex.\<close>

definition rebind_pending :: "'tri env \<Rightarrow> simplex \<Rightarrow> point \<Rightarrow> ('tri tlearner, unit) prog" where
  "rebind_pending env simplex p =
     bind (the_tri env) (\<lambda>t.
       if tri_point_in_simplex (prim env) t p simplex then
         bind (gets (\<lambda>s. dict_get (tl_subtriangulations s) simplex)) (\<lambda>found.
         bind (case found of
                 Some tr \<Rightarrow> ret tr
               | None \<Rightarrow>
                   bind (the_tri env) (\<lambda>t.
                     ret (tri_new (prim env) (tri_get_vertices (prim env) t simplex))))
           (\<lambda>tr.
             modify (\<lambda>s. s\<lparr>
               tl_subtriangulations :=
                 dict_set (tl_subtriangulations s) simplex
                   (fst (tri_add_point (prim env) tr p None None)),
               tl_pending_to_simplex := dict_set (tl_pending_to_simplex s) p simplex\<rparr>)))
       else ret ())"

definition add_loss :: "'tri env \<Rightarrow> point list \<Rightarrow> simplex \<Rightarrow> ('tri tlearner, unit) prog" where
  "add_loss env unbound simplex =
     bind (the_tri env) (\<lambda>t.
       let vertices = tri_get_vertices (prim env) t simplex
       in (\<lambda>s.
            case lookup_all (tl_data s) vertices of
              Inl e \<Rightarrow> (Inl e, s)
            | Inr vals \<Rightarrow>
                (case tl_loss_per_simplex s vertices vals of
                   Inl e \<Rightarrow> (Inl e, s)
                 | Inr loss \<Rightarrow>
                     for_each unbound (rebind_pending env simplex)
                       (s\<lparr>tl_losses := dict_set (tl_losses s) simplex loss\<rparr>))))"

definition update_losses ::
  "'tri env \<Rightarrow> simplex list \<Rightarrow> simplex list \<Rightarrow> ('tri tlearner, unit) prog" where
  "update_losses env to_delete to_add = (\<lambda>s.
     let (s1, collected) = drop_deleted env to_delete s [];
         pending_points_unbound = filter (\<lambda>p. \<not> dict_has (tl_data s1) p) (remdups collected)
     in for_each to_add (add_loss env pending_points_unbound) s1)"

text \<open>\<open>self._tri.add_point(point, simplex, transform=self._transform)\<close>.\<close>

definition tri_insert ::
  "'tri env \<Rightarrow> point \<Rightarrow> simplex option \<Rightarrow> ('tri tlearner, simplex list \<times> simplex list) prog" where
  "tri_insert env pt hint = (\<lambda>s.
     case tl_tri s of
       None \<Rightarrow> (Inl AttributeError, s)
     | Some t \<Rightarrow>
         (case tri_add_point (prim env) t pt hint (Some (tl_transform s)) of
            (t', to_delete, to_add) \<Rightarrow> (Inr (to_delete, to_add), s\<lparr>tl_tri := Some t'\<rparr>)))"

text \<open>
  \<open>tell\<close>. \<open>triangulate_told\<close> is its end, after the point and its value are in
  \<open>data\<close>: the test \<open>self.tri is not None\<close> and the incremental insertion.
\<close>

definition triangulate_told :: "'tri env \<Rightarrow> point \<Rightarrow> ('tri tlearner, unit) prog" where
  "triangulate_told env pt =
     bind (tri_prop env) (\<lambda>t.
       case t of
         None \<Rightarrow> ret ()
       | Some _ \<Rightarrow>
           bind (gets (\<lambda>s. dict_get (tl_pending_to_simplex s) pt)) (\<lambda>simplex.
           bind (case simplex of
                   None \<Rightarrow> ret None
                 | Some sx \<Rightarrow>
                     bind (simplex_exists env sx) (\<lambda>ex.
                       ret (if ex then Some sx else None)))
             (\<lambda>hint.
               bind (tri_insert env pt hint) (\<lambda>(to_delete, to_add).
                 update_losses env to_delete to_add))))"

definition tell :: "'tri env \<Rightarrow> point \<Rightarrow> real list option \<Rightarrow> ('tri tlearner, unit) prog" where
  "tell env pt val =
     bind (gets (\<lambda>s. dict_has (tl_data s) pt)) (\<lambda>known.
       if known then ret ()
       else
         case val of
           None \<Rightarrow> tell_pending env pt None
         | Some v \<Rightarrow>
             bind (modify (\<lambda>s. s\<lparr>tl_pending := tl_pending s - {pt},
                                   tl_data := dict_set (tl_data s) pt v\<rparr>)) (\<lambda>_.
               triangulate_told env pt))"

definition tl_remove_unfinished :: "('tri tlearner, unit) prog" where
  "tl_remove_unfinished =
     modify (\<lambda>s. s\<lparr>tl_pending := {}, tl_subtriangulations := [], tl_pending_to_simplex := []\<rparr>)"

subsection \<open>ask\<close>









subsection \<open>Sample inputs for the triangulating learner\<close>

text \<open>
  A small stand-in for the primitive, used where a property is shown at a concrete input:
  a triangulation is the list of its vertices, and inserting a point reports one
  simplex deleted and three added.
\<close>

definition sample_prim :: "(point list) triangulation" where
  "sample_prim = \<lparr>
     tri_new = (\<lambda>pts. pts),
     tri_add_point = (\<lambda>t p hint transform.
        (t @ [p], [[0, 1, 2]], [[0, 1, length t], [1, 2, length t], [0, 2, length t]])),
     tri_locate_point = (\<lambda>t p. []),
     tri_point_in_simplex = (\<lambda>t p sx. False),
     tri_get_vertices = (\<lambda>t sx. map (\<lambda>i. t ! i) sx),
     tri_vertex_to_simplices = (\<lambda>t i. []),
     tri_volume = (\<lambda>t sx. 1),
     tri_simplices = (\<lambda>t. [[0, 1, 2]]),
     tri_vertices = (\<lambda>t. t) \<rparr>"

definition sample_env :: "(point list) env" where
  "sample_env = \<lparr>
     prim = sample_prim,
     matrix_rank = length,
     delaunay_first_simplex = (\<lambda>pts. [0, 1, 2]),
     py_random = (\<lambda>seed k. 1 / 2) \<rparr>"

definition unit_square :: "(real \<times> real) list" where
  "unit_square = [(0, 1), (0, 1)]"

text \<open>
  A learner on the unit square after two corners were told and a third was asked for.
\<close>

definition two_told :: "(point list) tlearner" where
  "two_told = \<lparr>
     tl_ndim = 2,
     tl_loss_per_simplex = default_loss,
     tl_bounds = unit_square,
     tl_data = [([0, 0], [0]), ([0, 1], [0])],
     tl_pending = {[1, 0]},
     tl_bounds_points = [[0, 0], [0, 1], [1, 0], [1, 1]],
     tl_tri = None,
     tl_losses = [],
     tl_pending_to_simplex = [],
     tl_subtriangulations = [],
     tl_transform = [1, 1],
     tl_random = (1, 0) \<rparr>"

section \<open>The integrator\<close>

subsection \<open>Coefficient tables\<close>

text \<open>
  The module \<open>integrator_coeffs\<close> is not among the sources: its tables are a parameter
  of the model. \<open>ns\<close> is \<open>(5, 9, 17, 33)\<close>; \<open>xi\<close>, \<open>V_inv\<close>, \<open>Vcond\<close> and \<open>b_def\<close>
  have one entry for each of the four depths; \<open>T_left\<close> and \<open>T_right\<close> are square
  matrices of size \<open>ns[3]\<close>. The entries are finite numbers. The model reads the tables
  only at indices that exist in tables of these shapes.
\<close>

record tables =
  ns :: "nat list"
  xi :: "real list list"
  V_inv :: "real list list list"
  Vcond :: "real list"
  T_left :: "real list list"
  T_right :: "real list list"
  b_def :: "real list list"
  alpha :: "real list"
  gamma :: "real list"

text \<open>\<open>eps = np.spacing(1)\<close>, the gap between 1 and the next double.\<close>

definition eps :: real where
  "eps = 1 / 2 ^ 52"

subsection \<open>Vectors of floats\<close>

definition fl_dot :: "real list \<Rightarrow> fl list \<Rightarrow> fl" where
  "fl_dot row v = foldl fl_add (Fin 0) (map2 (\<lambda>r x. fl_mul (Fin r) x) row v)"

definition matvec :: "real list list \<Rightarrow> fl list \<Rightarrow> fl list" where
  "matvec m v = map (\<lambda>row. fl_dot row v) m"

definition vec_sub :: "fl list \<Rightarrow> fl list \<Rightarrow> fl list" where
  "vec_sub u v = map2 fl_sub u v"

text \<open>
  \<open>scipy.linalg.norm\<close> converts its argument with \<open>asarray_chkfinite\<close>: an array that
  contains an infinity or a NaN raises \<open>ValueError\<close>.
\<close>

definition norm2 :: "fl list \<Rightarrow> error + fl" where
  "norm2 v =
     (if list_all isfinite v
      then Inr (fl_sqrt (foldl fl_add (Fin 0) (map (\<lambda>x. fl_mul x x) v)))
      else Inl ValueError)"

text \<open>Python's index: a negative index counts from the end.\<close>

definition py_nth :: "'a list \<Rightarrow> int \<Rightarrow> 'a" where
  "py_nth xs i = (if i < 0 then xs ! nat (int (length xs) + i) else xs ! nat i)"

text \<open>The slice assignment \<open>row[:n] = vals\<close>.\<close>

definition set_prefix :: "'a list \<Rightarrow> nat \<Rightarrow> 'a list \<Rightarrow> 'a list" where
  "set_prefix row n vals = take n vals @ drop n row"

text \<open>The slice \<open>xs[::2]\<close>.\<close>

fun every_other :: "'a list \<Rightarrow> 'a list" where
  "every_other [] = []"
| "every_other [x] = [x]"
| "every_other (x # y # xs) = x # every_other xs"

text \<open>\<open>_zero_nans\<close> returns the indices of the non-finite entries and zeroes them.\<close>

definition zero_nans :: "fl list \<Rightarrow> nat list \<times> fl list" where
  "zero_nans fx =
     (filter (\<lambda>i. \<not> isfinite (fx ! i)) [0..<length fx],
      map (\<lambda>y. if isfinite y then y else Fin 0) fx)"

text \<open>\<open>fx[nans] = np.nan\<close>.\<close>

definition put_nans :: "nat list \<Rightarrow> fl list \<Rightarrow> fl list" where
  "put_nans nans fx = fold (\<lambda>i ys. ys[i := NaN]) nans fx"

text \<open>
  One round of the loop of \<open>_downdate\<close>, for the non-finite sample \<open>i\<close>, on the
  working vector \<open>b\<close>, the coefficients \<open>c\<close> and the counter \<open>m\<close>.
\<close>

definition downdate_step ::
  "tables \<Rightarrow> nat \<Rightarrow> nat \<Rightarrow> fl list \<times> fl list \<times> nat \<Rightarrow> fl list \<times> fl list \<times> nat" where
  "downdate_step T depth i = (\<lambda>(b, c, m).
     let b1 = b[m + 1 := fl_div (b ! (m + 1)) (Fin (alpha T ! m))];
         xii = Fin (xi T ! depth ! i);
         b2 = b1[m := fl_div (fl_add (b1 ! m) (fl_mul xii (b1 ! (m + 1))))
                         (Fin (py_nth (alpha T) (int m - 1)))];
         b3 = fold (\<lambda>j b. b[j := fl_div
                                (fl_sub (fl_add (b ! j) (fl_mul xii (b ! (j + 1))))
                                        (fl_mul (Fin (gamma T ! (j + 1))) (b ! (j + 2))))
                                (Fin (alpha T ! (j - 1)))])
                   (rev [1..<m]) b2;
         b4 = tl b3;
         factor = fl_div (c ! m) (b4 ! m);
         c1 = map2 (\<lambda>cj bj. fl_sub cj (fl_mul factor bj)) (take m c) (take m b4) @ drop m c;
         c2 = c1[m := Fin 0]
     in (b4, c2, m - 1))"

definition downdate :: "tables \<Rightarrow> fl list \<Rightarrow> nat list \<Rightarrow> nat \<Rightarrow> fl list" where
  "downdate T c nans depth =
     fst (snd (fold (downdate_step T depth) nans
                 (map Fin (b_def T ! depth), c, ns T ! depth - 1)))"

text \<open>\<open>_calc_coeffs\<close> returns the coefficients; the second component is \<open>fx\<close> as the
  function leaves it.\<close>

definition calc_coeffs :: "tables \<Rightarrow> fl list \<Rightarrow> nat \<Rightarrow> fl list \<times> fl list" where
  "calc_coeffs T fx depth =
     (let (nans, fx0) = zero_nans fx;
          c_new = matvec (V_inv T ! depth) fx0
      in if nans \<noteq> [] then (downdate T c_new nans depth, put_nans nans fx0)
         else (c_new, fx0))"


subsection \<open>Intervals\<close>

text \<open>
  An \<open>Interval\<close> object. Objects live in a store, a list indexed by handles in the
  order of creation; \<open>parent\<close> and \<open>children\<close> hold handles. \<open>iv_fx = None\<close> is an
  object without the attribute \<open>fx\<close>; \<open>iv_igral = None\<close> is the \<open>None\<close> that
  \<open>__init__\<close> stores. The other attributes are set by \<open>make_first\<close>, \<open>refine\<close> and
  \<open>split\<close> as soon as the object exists. \<open>iv_done_points\<close> is the \<open>SortedDict\<close>, kept
  in the order of its keys. Abscissae and bounds are real numbers, function values and
  everything computed from them are floats.
\<close>

record interval =
  iv_a :: real
  iv_b :: real
  iv_c :: "fl list list"
  iv_c_old :: "fl list"
  iv_depth :: nat
  iv_fx :: "fl list option"
  iv_igral :: "fl option"
  iv_err :: fl
  iv_tol :: "real option"
  iv_rdepth :: nat
  iv_ndiv :: nat
  iv_parent :: "nat option"
  iv_children :: "nat list"
  iv_done_points :: "(real \<times> fl) list"
  iv_est_err :: fl
  iv_discard :: bool

type_synonym store = "interval list"

definition upd :: "nat \<Rightarrow> (interval \<Rightarrow> interval) \<Rightarrow> store \<Rightarrow> store" where
  "upd h f st = st[h := f (st ! h)]"

text \<open>\<open>Interval.__init__\<close> followed by the assignments of the attributes it leaves out.\<close>

definition new_interval :: "tables \<Rightarrow> real \<Rightarrow> real \<Rightarrow> interval" where
  "new_interval T a b = \<lparr>
     iv_a = a, iv_b = b,
     iv_c = replicate (length (ns T)) (replicate (last (ns T)) (Fin 0)),
     iv_c_old = [],
     iv_depth = 0,
     iv_fx = None,
     iv_igral = None,
     iv_err = PInf,
     iv_tol = None,
     iv_rdepth = 0,
     iv_ndiv = 0,
     iv_parent = None,
     iv_children = [],
     iv_done_points = [],
     iv_est_err = PInf,
     iv_discard = False \<rparr>"

definition points :: "tables \<Rightarrow> interval \<Rightarrow> nat \<Rightarrow> real list" where
  "points T iv depth =
     map (\<lambda>x. (iv_a iv + iv_b iv) / 2 + (iv_b iv - iv_a iv) * x / 2) (xi T ! depth)"

definition make_first :: "tables \<Rightarrow> real \<Rightarrow> real \<Rightarrow> real option \<Rightarrow> interval \<times> real list" where
  "make_first T a b tol =
     (let ival = (new_interval T a b)\<lparr>
            iv_tol := tol, iv_ndiv := 0, iv_rdepth := 1, iv_parent := None, iv_depth := 3,
            iv_c_old := replicate (ns T ! 3) (Fin 0), iv_err := PInf\<rparr>
      in (ival, points T ival (iv_depth ival)))"

definition complete :: "tables \<Rightarrow> interval \<Rightarrow> bool" where
  "complete T iv = (length (iv_done_points iv) = ns T ! iv_depth iv)"

definition ival_done :: "tables \<Rightarrow> interval \<Rightarrow> bool" where
  "ival_done T iv = (iv_fx iv \<noteq> None \<and> complete T iv)"


text \<open>
  \<open>split\<close> creates the two children and makes them the children of the interval, then
  sets their attributes; dividing a tolerance that is \<open>None\<close> raises \<open>TypeError\<close> at
  the first child, which leaves both children without the attributes set after it
  (nothing reads them: the children are in no mapping).
\<close>

definition split :: "tables \<Rightarrow> nat \<Rightarrow> (store, nat list) prog" where
  "split T h = (\<lambda>st.
     let self = st ! h;
         pts = points T self (iv_depth self);
         a = iv_a self;
         b = iv_b self;
         m = pts ! (length pts div 2);
         l = length st;
         st1 = upd h (\<lambda>iv. iv\<lparr>iv_children := [l, l + 1]\<rparr>) st
     in case iv_tol self of
          None \<Rightarrow> (Inl TypeError, st1 @ [new_interval T a m, new_interval T m b])
        | Some tol \<Rightarrow>
            let child = (\<lambda>iv. iv\<lparr>
                  iv_depth := 0, iv_tol := Some (tol / sqrt 2), iv_c_old := iv_c_old self,
                  iv_rdepth := iv_rdepth self + 1, iv_parent := Some h,
                  iv_ndiv := iv_ndiv self,
                  iv_err := fl_div (iv_err self) (Fin (sqrt 2))\<rparr>)
            in (Inr [l, l + 1],
                st1 @ [child (new_interval T a m), child (new_interval T m b)]))"

text \<open>The property \<open>T\<close>: the shift matrix of a child of a split.\<close>

definition shift_matrix :: "tables \<Rightarrow> nat \<Rightarrow> store \<Rightarrow> error + real list list" where
  "shift_matrix T h st =
     (case iv_parent (st ! h) of
        None \<Rightarrow> Inl AssertionError
      | Some p \<Rightarrow>
          let left = (iv_a (st ! h) = iv_a (st ! p));
              right = (iv_b (st ! h) = iv_b (st ! p))
          in if left = right then Inl AssertionError
             else Inr (if left then T_left T else T_right T))"

definition fx_array :: "interval \<Rightarrow> fl list" where
  "fx_array iv = map snd (iv_done_points iv)"

definition set_row :: "nat \<Rightarrow> nat \<Rightarrow> fl list \<Rightarrow> fl list list \<Rightarrow> fl list list" where
  "set_row d n vals c = c[d := set_prefix (c ! d) n vals]"

definition process_make_first :: "tables \<Rightarrow> nat \<Rightarrow> (store, unit) prog" where
  "process_make_first T h = (\<lambda>st.
     let self = st ! h;
         (nans, fx0) = zero_nans (fx_array self);
         c1 = (iv_c self)[3 := matvec (V_inv T ! 3) fx0];
         c2 = set_row 2 (ns T ! 2) (matvec (V_inv T ! 2) (every_other (take (ns T ! 3) fx0))) c1;
         fx = put_nans nans fx0;
         st1 = upd h (\<lambda>iv. iv\<lparr>iv_c := c2, iv_fx := Some fx,
                                 iv_c_old := replicate (length fx) (Fin 0)\<rparr>) st;
         d = iv_depth self
     in case norm2 (vec_sub (c2 ! d) (c2 ! 2)) of
          Inl e \<Rightarrow> (Inl e, st1)
        | Inr c_diff \<Rightarrow>
            let a = iv_a self;
                b = iv_b self;
                err = fl_mul (Fin (b - a)) c_diff;
                igral = fl_div (fl_mul (Fin (b - a)) (c2 ! d ! 0)) (Fin (sqrt 2));
                st2 = upd h (\<lambda>iv. iv\<lparr>iv_err := err, iv_igral := Some igral\<rparr>) st1
            in (case norm2 (c2 ! 3) of
                  Inl e \<Rightarrow> (Inl e, st2)
                | Inr n3 \<Rightarrow>
                    if fl_gt (fl_div c_diff n3) (Fin (1 / 10)) then
                      (Inr (), upd h (\<lambda>iv. iv\<lparr>iv_err :=
                          (if fl_gt (fl_mul (Fin (b - a)) n3) err
                           then fl_mul (Fin (b - a)) n3 else err)\<rparr>) st2)
                    else (Inr (), st2)))"

text \<open>
  The summand of \<open>process_split\<close> that counts a division:
  \<open>abs(parent.c[0, 0]) > 0 and self.c[0, 0] / parent.c[0, 0] > 2\<close>, as a number.
\<close>

definition ndiv_increment :: "fl \<Rightarrow> fl \<Rightarrow> nat" where
  "ndiv_increment parent_c00 c00 =
     (if fl_gt (fl_abs parent_c00) (Fin 0) \<and> fl_gt (fl_div c00 parent_c00) (Fin 2)
      then 1 else 0)"

definition ndiv_max :: nat where
  "ndiv_max = 20"

definition process_split :: "tables \<Rightarrow> nat \<Rightarrow> (store, unit) prog" where
  "process_split T h = (\<lambda>st.
     let self = st ! h;
         d = iv_depth self;
         (c_new, fx) = calc_coeffs T (fx_array self) d;
         c1 = set_row d (ns T ! d) c_new (iv_c self);
         st1 = upd h (\<lambda>iv. iv\<lparr>iv_c := c1, iv_fx := Some fx\<rparr>) st
     in case iv_parent self of
          None \<Rightarrow> (Inl AssertionError, st1)
        | Some p \<Rightarrow>
            (case shift_matrix T h st1 of
               Inl e \<Rightarrow> (Inl e, st1)
             | Inr tm \<Rightarrow>
                 let parent = st1 ! p;
                     c_old = matvec tm (iv_c parent ! iv_depth parent);
                     st2 = upd h (\<lambda>iv. iv\<lparr>iv_c_old := c_old\<rparr>) st1
                 in (case norm2 (vec_sub (c1 ! d) c_old) of
                       Inl e \<Rightarrow> (Inl e, st2)
                     | Inr c_diff \<Rightarrow>
                         let a = iv_a self;
                             b = iv_b self;
                             ndiv = iv_ndiv (st2 ! p)
                                      + ndiv_increment (iv_c (st2 ! p) ! 0 ! 0) (c1 ! 0 ! 0);
                             st3 = upd h (\<lambda>iv. iv\<lparr>
                                 iv_err := fl_mul (Fin (b - a)) c_diff,
                                 iv_igral := Some (fl_div (fl_mul (Fin (b - a)) (c1 ! d ! 0))
                                                          (Fin (sqrt 2))),
                                 iv_ndiv := ndiv\<rparr>) st2
                         in if ndiv > ndiv_max \<and> 2 * ndiv > iv_rdepth self
                            then (Inl (DivergentIntegralError h), st3)
                            else (Inr (), st3))))"

definition process_refine :: "tables \<Rightarrow> nat \<Rightarrow> (store, bool) prog" where
  "process_refine T h = (\<lambda>st.
     let self = st ! h;
         d = iv_depth self;
         (c_new, fx) = calc_coeffs T (fx_array self) d;
         c1 = set_row d (ns T ! d) c_new (iv_c self);
         st1 = upd h (\<lambda>iv. iv\<lparr>iv_c := c1, iv_fx := Some fx\<rparr>) st
     in case norm2 (vec_sub (py_nth c1 (int d - 1)) (c1 ! d)) of
          Inl e \<Rightarrow> (Inl e, st1)
        | Inr c_diff \<Rightarrow>
            let a = iv_a self;
                b = iv_b self;
                st2 = upd h (\<lambda>iv. iv\<lparr>
                    iv_err := fl_mul (Fin (b - a)) c_diff,
                    iv_igral := Some (fl_div (fl_mul (Fin (b - a)) (c_new ! 0))
                                             (Fin (sqrt 2)))\<rparr>) st1
            in (case norm2 c_new of
                  Inl e \<Rightarrow> (Inl e, st2)
                | Inr nc \<Rightarrow>
                    (Inr (fl_gt nc (Fin 0) \<and> fl_gt (fl_div c_diff nc) (Fin (1 / 10))), st2)))"


text \<open>
  The loop of \<open>complete_process\<close> over the ancestors. The parent of an interval was
  created before it, so its handle is smaller; the loop follows a parent link only to a
  smaller handle, which is every link the program creates.
\<close>

function propagate_est_err :: "nat \<Rightarrow> store \<Rightarrow> store" where
  "propagate_est_err h st =
     (let children_err = py_sum (map (\<lambda>i. iv_est_err (st ! i)) (iv_children (st ! h)))
      in if isfinite children_err then
           (let st1 = upd h (\<lambda>iv. iv\<lparr>iv_est_err := children_err\<rparr>) st
            in case iv_parent (st1 ! h) of
                 None \<Rightarrow> st1
               | Some p \<Rightarrow> if p < h then propagate_est_err p st1 else st1)
         else st)"
  by pat_completeness auto
termination
  by (relation "measure fst") auto

definition complete_process :: "tables \<Rightarrow> nat \<Rightarrow> (store, bool \<times> bool) prog" where
  "complete_process T h =
     bind (\<lambda>st.
            case iv_parent (st ! h) of
              None \<Rightarrow> bind (process_make_first T h) (\<lambda>_. ret False) st
            | Some p \<Rightarrow>
                if iv_rdepth (st ! h) > iv_rdepth (st ! p)
                then bind (process_split T h) (\<lambda>_. ret False) st
                else process_refine T h st)
       (\<lambda>force_split.
     bind (modify (\<lambda>st.
             if isinf (iv_est_err (st ! h))
             then upd h (\<lambda>iv. iv\<lparr>iv_est_err := iv_err iv\<rparr>) st else st)) (\<lambda>_.
     bind (modify (\<lambda>st.
             case iv_parent (st ! h) of
               None \<Rightarrow> st
             | Some p \<Rightarrow> if p < h then propagate_est_err p st else st)) (\<lambda>_.
     (\<lambda>st.
        case iv_igral (st ! h) of
          None \<Rightarrow> (Inl TypeError, st)
        | Some igral \<Rightarrow>
            let remove = fl_lt (iv_err (st ! h))
                           (fl_mul (fl_mul (fl_abs igral) (Fin eps))
                                   (Fin (Vcond T ! iv_depth (st ! h))))
            in (Inr (if remove then False else force_split, remove), st)))))"

subsection \<open>The learner\<close>

text \<open>
  The attributes of an \<open>IntegratorLearner\<close>. \<open>il_store\<close> holds the \<open>Interval\<close>
  objects. A \<open>SortedSet\<close> is the list of its members in the order of their keys, a new
  member after those whose key is not larger: \<open>il_ivals\<close> by \<open>err\<close>, the sets of
  \<open>il_x_mapping\<close> by \<open>rdepth\<close>. The \<open>defaultdict\<close> \<open>x_mapping\<close> gets an empty set
  for a key it is indexed with and does not have.
\<close>

record ilearner =
  il_bounds :: "real \<times> real"
  il_tol :: "real option"
  il_rtol :: "real option"
  il_priority_split :: "nat list"
  il_ivals :: "nat list"
  il_done_points :: "(real \<times> fl) list"
  il_not_done_points :: "real set"
  il_stack :: "real list"
  il_err_final :: fl
  il_igral_final :: fl
  il_x_mapping :: "(real \<times> nat list) list"
  il_first_ival :: nat
  il_complete_branches :: "nat list"
  il_store :: store

definition on_store :: "(store, 'a) prog \<Rightarrow> (ilearner, 'a) prog" where
  "on_store m = (\<lambda>s. case m (il_store s) of (r, st) \<Rightarrow> (r, s\<lparr>il_store := st\<rparr>))"

definition sorted_add :: "('a \<Rightarrow> 'a \<Rightarrow> bool) \<Rightarrow> 'a \<Rightarrow> 'a list \<Rightarrow> 'a list" where
  "sorted_add lt x xs =
     (if x \<in> set xs then xs
      else takeWhile (\<lambda>e. \<not> lt x e) xs @ x # dropWhile (\<lambda>e. \<not> lt x e) xs)"

definition err_less :: "store \<Rightarrow> nat \<Rightarrow> nat \<Rightarrow> bool" where
  "err_less st h k = fl_lt (iv_err (st ! h)) (iv_err (st ! k))"

definition rdepth_less :: "store \<Rightarrow> nat \<Rightarrow> nat \<Rightarrow> bool" where
  "rdepth_less st h k = (iv_rdepth (st ! h) < iv_rdepth (st ! k))"

definition ivals_add :: "nat \<Rightarrow> ilearner \<Rightarrow> ilearner" where
  "ivals_add h s = s\<lparr>il_ivals := sorted_add (err_less (il_store s)) h (il_ivals s)\<rparr>"

definition ivals_discard :: "nat \<Rightarrow> ilearner \<Rightarrow> ilearner" where
  "ivals_discard h s = s\<lparr>il_ivals := removeAll h (il_ivals s)\<rparr>"

definition xm_touch :: "(real \<times> nat list) list \<Rightarrow> real \<Rightarrow> (real \<times> nat list) list" where
  "xm_touch m x = (if dict_has m x then m else m @ [(x, [])])"

definition xm_lookup :: "(real \<times> nat list) list \<Rightarrow> real \<Rightarrow> nat list" where
  "xm_lookup m x = (case dict_get m x of None \<Rightarrow> [] | Some hs \<Rightarrow> hs)"

text \<open>An entry of a \<open>SortedDict\<close>: replaced, or put where its key belongs.\<close>

fun sorted_dict_set :: "(real \<times> 'v) list \<Rightarrow> real \<Rightarrow> 'v \<Rightarrow> (real \<times> 'v) list" where
  "sorted_dict_set [] k v = [(k, v)]"
| "sorted_dict_set ((k', v') # d) k v =
     (if k = k' then (k, v) # d
      else if k < k' then (k, v) # (k', v') # d
      else (k', v') # sorted_dict_set d k v)"

text \<open>The body of the loop of \<open>add_point\<close> over the intervals that have the point.\<close>

definition add_point_ival :: "tables \<Rightarrow> real \<Rightarrow> fl \<Rightarrow> nat \<Rightarrow> (ilearner, unit) prog" where
  "add_point_ival T pt val h =
     bind (modify (\<lambda>s. s\<lparr>il_store :=
             upd h (\<lambda>iv. iv\<lparr>iv_done_points := sorted_dict_set (iv_done_points iv) pt val\<rparr>)
               (il_store s)\<rparr>)) (\<lambda>_.
     bind (gets (\<lambda>s. il_store s ! h)) (\<lambda>ival.
       if complete T ival \<and> \<not> ival_done T ival \<and> \<not> iv_discard ival then
         bind (gets (\<lambda>s. h \<in> set (il_ivals s))) (\<lambda>in_ivals.
         bind (modify (ivals_discard h)) (\<lambda>_.
         bind (on_store (complete_process T h)) (\<lambda>(force_split, remove).
         bind (if remove then
                 (\<lambda>s. case iv_igral (il_store s ! h) of
                         None \<Rightarrow> (Inl TypeError,
                                   s\<lparr>il_err_final :=
                                       fl_add (il_err_final s) (iv_err (il_store s ! h))\<rparr>)
                       | Some igral \<Rightarrow>
                           (Inr (),
                            s\<lparr>il_err_final :=
                                 fl_add (il_err_final s) (iv_err (il_store s ! h)),
                              il_igral_final := fl_add (il_igral_final s) igral\<rparr>))
               else if in_ivals then modify (ivals_add h)
               else ret ()) (\<lambda>_.
           if force_split
           then modify (\<lambda>s. s\<lparr>il_priority_split := il_priority_split s @ [h]\<rparr>)
           else ret ()))))
       else ret ()))"

definition il_add_point :: "tables \<Rightarrow> real \<Rightarrow> fl \<Rightarrow> (ilearner, unit) prog" where
  "il_add_point T pt val =
     bind (gets (\<lambda>s. dict_has (il_x_mapping s) pt)) (\<lambda>known.
       if \<not> known then raise ValueError
       else
         bind (modify (\<lambda>s. s\<lparr>il_done_points := dict_set (il_done_points s) pt val,
                               il_not_done_points := il_not_done_points s - {pt}\<rparr>)) (\<lambda>_.
         bind (gets (\<lambda>s. xm_lookup (il_x_mapping s) pt)) (\<lambda>ivals.
           for_each ivals (add_point_ival T pt val))))"

text \<open>The body of the loop of \<open>_update_ival\<close> over the abscissae.\<close>

definition update_ival_point :: "tables \<Rightarrow> nat \<Rightarrow> real \<Rightarrow> (ilearner, unit) prog" where
  "update_ival_point T h x =
     bind (modify (\<lambda>s. s\<lparr>il_x_mapping :=
             dict_set (xm_touch (il_x_mapping s) x) x
               (sorted_add (rdepth_less (il_store s)) h (xm_lookup (il_x_mapping s) x))\<rparr>)) (\<lambda>_.
     bind (gets (\<lambda>s. dict_get (il_done_points s) x)) (\<lambda>known.
       case known of
         Some y \<Rightarrow> il_add_point T x y
       | None \<Rightarrow>
           modify (\<lambda>s. if x \<notin> il_not_done_points s
                        then s\<lparr>il_not_done_points := insert x (il_not_done_points s),
                               il_stack := il_stack s @ [x]\<rparr>
                        else s)))"

definition update_ival :: "tables \<Rightarrow> nat \<Rightarrow> real list \<Rightarrow> (ilearner, unit) prog" where
  "update_ival T h pts =
     bind (gets (\<lambda>s. iv_discard (il_store s ! h))) (\<lambda>discarded.
       if discarded then raise AssertionError
       else
         bind (for_each pts (update_ival_point T h)) (\<lambda>_.
           modify (ivals_add h)))"









text \<open>\<open>remove_unfinished\<close>: the body is \<open>pass\<close>.\<close>

definition il_remove_unfinished :: "(ilearner, unit) prog" where
  "il_remove_unfinished = ret ()"






subsection \<open>Reporting\<close>









text \<open>
  \<open>__init__\<close>: at least one tolerance, then the first interval and its abscissae.
\<close>

definition il_init ::
  "tables \<Rightarrow> real \<times> real \<Rightarrow> real option \<Rightarrow> real option \<Rightarrow> error + ilearner" where
  "il_init T bounds tol rtol =
     (if rtol = None \<and> tol = None then Inl ValueError
      else
        let (ival, pts) = make_first T (fst bounds) (snd bounds) tol;
            s0 = \<lparr> il_bounds = bounds, il_tol = tol, il_rtol = rtol,
                   il_priority_split = [], il_ivals = [], il_done_points = [],
                   il_not_done_points = {}, il_stack = [],
                   il_err_final = Fin 0, il_igral_final = Fin 0,
                   il_x_mapping = [], il_first_ival = 0, il_complete_branches = [],
                   il_store = [ival] \<rparr>
        in case update_ival T 0 pts s0 of
             (Inl e, _) \<Rightarrow> Inl e
           | (Inr _, s1) \<Rightarrow> Inr (s1\<lparr>il_first_ival := 0, il_complete_branches := []\<rparr>))"


declare propagate_est_err.simps [simp del]

subsection \<open>Invariants\<close>







subsection \<open>Sample inputs for the integrator\<close>

text \<open>
  Tables of the right shapes with simple entries, for showing properties at concrete
  inputs: equally spaced abscissae, and a \<open>V_inv\<close> whose only non-zero row gives
  \<open>sqrt 2\<close> times the mean of the samples as the leading coefficient, so that
  \<open>igral\<close> is the width of the interval times the mean.
\<close>

definition sample_sizes :: "nat list" where
  "sample_sizes = [5, 9, 17, 33]"

definition sample_tables :: tables where
  "sample_tables = \<lparr>
     ns = sample_sizes,
     xi = map (\<lambda>n. map (\<lambda>k. - 1 + 2 * real k / real (n - 1)) [0..<n]) sample_sizes,
     V_inv = map (\<lambda>n. replicate n (sqrt 2 / real n) # replicate (n - 1) (replicate n 0))
               sample_sizes,
     Vcond = [1, 1, 1, 1],
     T_left = replicate 33 (replicate 33 0),
     T_right = replicate 33 (replicate 33 0),
     b_def = map (\<lambda>n. replicate (n + 1) 1) sample_sizes,
     alpha = replicate 33 1,
     gamma = replicate 33 1 \<rparr>"

text \<open>
  A learner on \<open>[0, 1]\<close> right after its construction, with an absolute tolerance, and
  one with only a relative tolerance.
\<close>

definition fresh_learner :: ilearner where
  "fresh_learner = projr (il_init sample_tables (0, 1) (Some (1 / 1000)) None)"


text \<open>
  The learner on \<open>[0, 1]\<close> while the constant function 1 is told: after 32 of its 33
  values (\<open>almost_learner\<close>, the value at 1 is missing), and after the last one
  (\<open>retired_learner\<close>): the first interval is processed (integral 1, error 0) and was
  retired by \<open>add_point\<close> for machine precision, which added its integral and error to
  the accumulators.
\<close>

definition told_points :: "nat \<Rightarrow> (real \<times> fl) list" where
  "told_points n = map (\<lambda>k. (real k / 32, Fin 1)) [0..<n]"

definition almost_interval :: interval where
  "almost_interval = (fst (make_first sample_tables 0 1 (Some (1 / 1000))))\<lparr>
     iv_done_points := told_points 32 \<rparr>"

definition almost_learner :: ilearner where
  "almost_learner = \<lparr>
     il_bounds = (0, 1), il_tol = Some (1 / 1000), il_rtol = None,
     il_priority_split = [], il_ivals = [0],
     il_done_points = told_points 32,
     il_not_done_points = {1}, il_stack = [],
     il_err_final = Fin 0, il_igral_final = Fin 0,
     il_x_mapping = map (\<lambda>k. (real k / 32, [0])) [0..<33],
     il_first_ival = 0, il_complete_branches = [],
     il_store = [almost_interval] \<rparr>"

definition retired_interval :: interval where
  "retired_interval = almost_interval\<lparr>
     iv_c := [replicate 33 (Fin 0), replicate 33 (Fin 0),
              (Fin (sqrt 2) # replicate 16 (Fin 0)) @ replicate 16 (Fin 0),
              Fin (sqrt 2) # replicate 32 (Fin 0)],
     iv_c_old := replicate 33 (Fin 0),
     iv_fx := Some (replicate 33 (Fin 1)),
     iv_igral := Some (Fin 1),
     iv_err := Fin 0,
     iv_done_points := told_points 33,
     iv_est_err := Fin 0 \<rparr>"

definition retired_learner :: ilearner where
  "retired_learner = almost_learner\<lparr>
     il_ivals := [],
     il_done_points := told_points 33,
     il_not_done_points := {},
     il_err_final := Fin 0, il_igral_final := Fin 1,
     il_store := [retired_interval] \<rparr>"

text \<open>
  A store after a split of the first interval: the parent has the leading coefficient
  \<open>sqrt 2\<close> (mean 1), the left child has its five values, all \<open>-3\<close>.
\<close>

definition split_store :: store where
  "split_store =
    [ (new_interval sample_tables 0 1)\<lparr>
         iv_depth := 3, iv_rdepth := 1, iv_tol := Some 1, iv_children := [1, 2],
         iv_c := ((replicate 33 (Fin 0))[0 := Fin (sqrt 2)]) # replicate 3 (replicate 33 (Fin 0)),
         iv_c_old := replicate 33 (Fin 0)\<rparr>,
      (new_interval sample_tables 0 (1 / 2))\<lparr>
         iv_depth := 0, iv_rdepth := 2, iv_tol := Some (1 / sqrt 2), iv_parent := Some 0,
         iv_c_old := replicate 33 (Fin 0),
         iv_done_points := map (\<lambda>k. (real k / 8, Fin (- 3))) [0..<5]\<rparr>,
      (new_interval sample_tables (1 / 2) 1)\<lparr>
         iv_depth := 0, iv_rdepth := 2, iv_tol := Some (1 / sqrt 2), iv_parent := Some 0,
         iv_c_old := replicate 33 (Fin 0)\<rparr> ]"


section \<open>Properties\<close>

subsection \<open>Effects\<close>

lemma bind_ret: "bind (ret x) f = f x"
  by (simp add: bind_def ret_def)

lemma bind_raise: "bind (raise e) f = raise e"
  by (simp add: bind_def raise_def fun_eq_iff)

subsection \<open>The property tri\<close>

lemma tri_prop_fresh:
  "tl_tri s = None \<Longrightarrow> length (tl_data s) < 2 \<Longrightarrow> tri_prop env s = (Inr None, s)"
  by (simp add: tri_prop_def)

lemma tri_prop_builds:
  "tl_tri s = None \<Longrightarrow> 2 \<le> length (tl_data s) \<Longrightarrow>
   find_initial_simplex env (tl_points s) (tl_ndim s) = Inr (Some isx) \<Longrightarrow>
   tri_prop env s = (Inr None, s\<lparr>tl_tri := Some (initial_triangulation env s isx)\<rparr>)"
  by (simp add: tri_prop_def)

lemma tri_prop_built: "tl_tri s = Some t \<Longrightarrow> tri_prop env s = (Inr (Some t), s)"
  by (simp add: tri_prop_def)


subsection \<open>Corners first\<close>






subsection \<open>The first construction of the triangulation\<close>

lemma tell_builds:
  assumes "tl_tri s = None" "\<not> dict_has (tl_data s) p"
    and "s1 = s\<lparr>tl_pending := tl_pending s - {p}, tl_data := dict_set (tl_data s) p v\<rparr>"
    and "2 \<le> length (tl_data s1)"
    and "find_initial_simplex env (tl_points s1) (tl_ndim s1) = Inr (Some isx)"
  shows "tell env p (Some v) s
           = (Inr (), s1\<lparr>tl_tri := Some (initial_triangulation env s1 isx)\<rparr>)"
proof -
  have "tl_tri s1 = None"
    using assms by simp
  from tri_prop_builds [OF this assms(4) assms(5)]
  show ?thesis
    using assms(2,3)
    by (simp add: tell_def triangulate_told_def bind_def gets_def modify_def ret_def)
qed

text \<open>
  Claim C9. When \<open>_tri\<close> is \<open>None\<close>, at least two points are told and
  \<open>find_initial_simplex\<close> finds a simplex (the points are not coplanar), the access of
  the property \<open>tri\<close> stores the new triangulation in \<open>_tri\<close> and evaluates to \<open>None\<close>;
  the next access evaluates to the stored triangulation and changes nothing. So the
  \<open>tell\<close> whose value makes the triangulation possible ends after the test
  \<open>self.tri is not None\<close>: the state it leaves is the one with the point in \<open>data\<close>,
  out of \<open>_pending\<close>, and \<open>_tri\<close> built from \<open>data\<close>; neither the incremental
  \<open>add_point\<close> for the point nor \<open>update_losses\<close> has run, and \<open>_losses\<close>,
  \<open>_subtriangulations\<close> and \<open>_pending_to_simplex\<close> are as before.
\<close>

theorem tri_first_access_is_none:
  "(tl_tri s = None \<longrightarrow> 2 \<le> length (tl_data s) \<longrightarrow>
    find_initial_simplex env (tl_points s) (tl_ndim s) = Inr (Some isx) \<longrightarrow>
      tri_prop env s = (Inr None, s\<lparr>tl_tri := Some (initial_triangulation env s isx)\<rparr>) \<and>
      tri_prop env (s\<lparr>tl_tri := Some (initial_triangulation env s isx)\<rparr>)
        = (Inr (Some (initial_triangulation env s isx)),
           s\<lparr>tl_tri := Some (initial_triangulation env s isx)\<rparr>))
   \<and> (tl_tri s = None \<longrightarrow> \<not> dict_has (tl_data s) p \<longrightarrow>
      s1 = s\<lparr>tl_pending := tl_pending s - {p}, tl_data := dict_set (tl_data s) p v\<rparr> \<longrightarrow>
      2 \<le> length (tl_data s1) \<longrightarrow>
      find_initial_simplex env (tl_points s1) (tl_ndim s1) = Inr (Some isx1) \<longrightarrow>
        tell env p (Some v) s
          = (Inr (), s1\<lparr>tl_tri := Some (initial_triangulation env s1 isx1)\<rparr>) \<and>
        tl_losses (snd (tell env p (Some v) s)) = tl_losses s \<and>
        tl_subtriangulations (snd (tell env p (Some v) s)) = tl_subtriangulations s \<and>
        tl_pending_to_simplex (snd (tell env p (Some v) s)) = tl_pending_to_simplex s)"
proof (intro conjI impI)
  assume a: "tl_tri s = None" "2 \<le> length (tl_data s)"
    "find_initial_simplex env (tl_points s) (tl_ndim s) = Inr (Some isx)"
  then show "tri_prop env s = (Inr None, s\<lparr>tl_tri := Some (initial_triangulation env s isx)\<rparr>)"
    by (rule tri_prop_builds)
  show "tri_prop env (s\<lparr>tl_tri := Some (initial_triangulation env s isx)\<rparr>)
        = (Inr (Some (initial_triangulation env s isx)),
           s\<lparr>tl_tri := Some (initial_triangulation env s isx)\<rparr>)"
    by (rule tri_prop_built) simp
next
  assume b: "tl_tri s = None" "\<not> dict_has (tl_data s) p"
    "s1 = s\<lparr>tl_pending := tl_pending s - {p}, tl_data := dict_set (tl_data s) p v\<rparr>"
    "2 \<le> length (tl_data s1)"
    "find_initial_simplex env (tl_points s1) (tl_ndim s1) = Inr (Some isx1)"
  then have t: "tell env p (Some v) s
      = (Inr (), s1\<lparr>tl_tri := Some (initial_triangulation env s1 isx1)\<rparr>)"
    by (rule tell_builds)
  show "tell env p (Some v) s
      = (Inr (), s1\<lparr>tl_tri := Some (initial_triangulation env s1 isx1)\<rparr>)"
    by (rule t)
  show "tl_losses (snd (tell env p (Some v) s)) = tl_losses s"
    by (simp add: t b(3))
  show "tl_subtriangulations (snd (tell env p (Some v) s)) = tl_subtriangulations s"
    by (simp add: t b(3))
  show "tl_pending_to_simplex (snd (tell env p (Some v) s)) = tl_pending_to_simplex s"
    by (simp add: t b(3))
qed

text \<open>
  At the sample input: the third corner is told, the triangulation is built from the
  three points, and no loss is recorded, although the primitive reports three new
  simplices for every insertion.
\<close>

theorem tri_first_access_is_none_witness:
  "tl_tri two_told = None \<and> \<not> dict_has (tl_data two_told) [1, 0] \<and>
   find_initial_simplex sample_env [[0, 0], [0, 1], [1, 0]] 2 = Inr (Some [0, 1, 2]) \<and>
   tell sample_env [1, 0] (Some [0]) two_told
     = (Inr (), two_told\<lparr>tl_pending := {},
                          tl_data := [([0, 0], [0]), ([0, 1], [0]), ([1, 0], [0])],
                          tl_tri := Some [[0, 0], [0, 1], [1, 0]]\<rparr>) \<and>
   tl_losses (snd (tell sample_env [1, 0] (Some [0]) two_told)) = []"
proof -
  let ?s1 = "two_told\<lparr>tl_pending := tl_pending two_told - {[1, 0]},
                       tl_data := dict_set (tl_data two_told) [1, 0] [0]\<rparr>"
  have h1: "tl_tri two_told = None"
    by (simp add: two_told_def)
  have h2: "\<not> dict_has (tl_data two_told) [1, 0]"
    by (simp add: two_told_def dict_has_def dict_keys_def)
  have h4: "2 \<le> length (tl_data ?s1)"
    by (simp add: two_told_def dict_set_def)
  have pts: "tl_points ?s1 = [[0, 0], [0, 1], [1, 0]]" and nd: "tl_ndim ?s1 = 2"
    by (simp_all add: two_told_def dict_set_def tl_points_def dict_keys_def)
  have fi: "find_initial_simplex sample_env [[0, 0], [0, 1], [1, 0]] 2 = Inr (Some [0, 1, 2])"
    by (simp add: find_initial_simplex_def sample_env_def)
  have h5: "find_initial_simplex sample_env (tl_points ?s1) (tl_ndim ?s1) = Inr (Some [0, 1, 2])"
    by (simp only: pts nd fi)
  have it: "initial_triangulation sample_env ?s1 [0, 1, 2] = [[0, 0], [0, 1], [1, 0]]"
    by (simp add: initial_triangulation_def pts sample_env_def sample_prim_def)
  from tri_first_access_is_none [THEN conjunct2, rule_format, OF h1 h2 refl h4 h5]
  have "tell sample_env [1, 0] (Some [0]) two_told
          = (Inr (), ?s1\<lparr>tl_tri := Some (initial_triangulation sample_env ?s1 [0, 1, 2])\<rparr>)"
    by (rule conjunct1)
  then have t: "tell sample_env [1, 0] (Some [0]) two_told
          = (Inr (), ?s1\<lparr>tl_tri := Some [[0, 0], [0, 1], [1, 0]]\<rparr>)"
    by (simp only: it)
  have e: "?s1\<lparr>tl_tri := Some [[0, 0], [0, 1], [1, 0]]\<rparr>
            = two_told\<lparr>tl_pending := {},
                        tl_data := [([0, 0], [0]), ([0, 1], [0]), ([1, 0], [0])],
                        tl_tri := Some [[0, 0], [0, 1], [1, 0]]\<rparr>"
    by (simp add: two_told_def dict_set_def)
  have l: "tl_losses (snd (tell sample_env [1, 0] (Some [0]) two_told)) = []"
    by (simp add: t) (simp add: two_told_def)
  show ?thesis
    using h1 h2 fi t l by (simp only: e simp_thms)
qed


subsection \<open>The default loss\<close>

lemma edge_matrix_eq:
  assumes len: "length simplex = Suc d" and vs: "list_all (\<lambda>v. length v = d) simplex"
  shows "map (\<lambda>v. map2 (-) v (last simplex)) (butlast simplex) = spec_edge_matrix simplex"
proof (rule nth_equalityI)
  show "length (map (\<lambda>v. map2 (-) v (last simplex)) (butlast simplex))
          = length (spec_edge_matrix simplex)"
    by (simp add: spec_edge_matrix_def len)
next
  fix i
  assume "i < length (map (\<lambda>v. map2 (-) v (last simplex)) (butlast simplex))"
  then have i: "i < d"
    by (simp add: len)
  have ne: "simplex \<noteq> []"
    using len by auto
  have last: "last simplex = simplex ! d"
    using len ne by (simp add: last_conv_nth)
  have bl: "butlast simplex ! i = simplex ! i"
    using i len by (simp add: nth_butlast)
  have li: "length (simplex ! i) = d" and ld: "length (simplex ! d) = d"
    using vs i len by (simp_all add: list_all_length)
  have "map2 (-) (simplex ! i) (simplex ! d)
          = map (\<lambda>j. simplex ! i ! j - simplex ! d ! j) [0..<d]"
    by (rule nth_equalityI) (simp_all add: li ld)
  then show "map (\<lambda>v. map2 (-) v (last simplex)) (butlast simplex) ! i
               = spec_edge_matrix simplex ! i"
    using i len by (simp add: spec_edge_matrix_def last bl)
qed

lemma volume_spec:
  assumes len: "length simplex = Suc d" and d: "1 \<le> d"
    and vs: "list_all (\<lambda>v. length v = d) simplex"
  shows "volume simplex = Inr (spec_volume simplex)"
proof -
  obtain a b rest where s: "simplex = a # b # rest"
    using len d by (cases simplex; cases "tl simplex") auto
  have ne: "simplex \<noteq> []"
    using s by simp
  have ll: "length (last simplex) = d"
    using vs ne by (simp add: list_all_iff)
  have all: "list_all (\<lambda>v. length v = length (last simplex)) simplex"
    using vs ll by simp
  have lm: "length (map (\<lambda>v. map2 (-) v (last simplex)) (butlast simplex)) = d"
    using len by simp
  have "volume simplex
          = Inr (\<bar>det (map (\<lambda>v. map2 (-) v (last simplex)) (butlast simplex))\<bar>
                 / fact (length simplex - 1))"
    unfolding volume_def using all ll lm
    by (simp add: s Let_def del: last.simps butlast.simps)
  then show ?thesis
    by (simp add: edge_matrix_eq [OF len vs] spec_volume_def)
qed

lemma powr_root: "0 \<le> x \<Longrightarrow> 0 < n \<Longrightarrow> x powr (1 / real n) = root n x"
  by (cases "x = 0") (simp_all add: root_powr_inverse)

lemma spec_volume_sample: "spec_volume [[0, 0], [1, 0], [0, 1]] = 1 / 2"
  by (simp add: spec_volume_def spec_edge_matrix_def drop_nth_def upt_rec numeral_eq_Suc)

lemma std_sample: "np_norm (np_std_axis0 [[0], [0], [3]]) = sqrt 2"
  by (simp add: np_std_axis0_def np_norm_def np_std_def np_mean_def)

lemma spec_std_loss_sample: "spec_std_loss [[0, 0], [1, 0], [0, 1]] [[0], [0], [3]] = 3 / 2"
proof -
  have "sqrt 2 * sqrt (1 / 2) = sqrt (2 * (1 / 2))"
    by (rule real_sqrt_mult [symmetric])
  then have "sqrt 2 * root (Suc (Suc 0)) (1 / 2) = 1"
    by (simp add: sqrt_def numeral_2_eq_2)
  then show ?thesis
    by (simp add: spec_std_loss_def spec_volume_sample std_sample)
qed

text \<open>
  Claim C8. For a simplex of \<open>dim + 1\<close> vertices with \<open>dim\<close> coordinates each
  (\<open>dim \<ge> 1\<close>) and any list of values, \<open>std_loss\<close> raises nothing and returns
  \<open>\<parallel>std(values, axis=0)\<parallel> * volume^(1/dim) + volume\<close>, where \<open>volume\<close> returns
  \<open>|det M| / dim!\<close> for the matrix \<open>M\<close> of the edge vectors from the last vertex;
  \<open>default_loss\<close> is \<open>std_loss\<close>. Numbers are exact reals here. (In Python the
  product with \<open>r.flat\<close> makes the result an array of one element, which
  \<open>update_losses\<close> turns into a float.)
\<close>

theorem std_loss_formula:
  "length simplex = Suc d \<longrightarrow> 1 \<le> d \<longrightarrow> list_all (\<lambda>v. length v = d) simplex \<longrightarrow>
     volume simplex = Inr (spec_volume simplex) \<and>
     std_loss simplex ys = Inr (spec_std_loss simplex ys) \<and>
     default_loss simplex ys = std_loss simplex ys"
proof (intro impI conjI)
  assume a: "length simplex = Suc d" "1 \<le> d" "list_all (\<lambda>v. length v = d) simplex"
  show v: "volume simplex = Inr (spec_volume simplex)"
    using a by (rule volume_spec)
  have nn: "0 \<le> spec_volume simplex"
    by (simp add: spec_volume_def)
  show "std_loss simplex ys = Inr (spec_std_loss simplex ys)"
    using a(1,2) by (simp add: std_loss_def v spec_std_loss_def powr_root [OF nn])
  show "default_loss simplex ys = std_loss simplex ys"
    by (simp add: default_loss_def)
qed

theorem std_loss_formula_witness:
  "length [[0, 0], [1, 0], [0, 1 :: real]] = Suc 2 \<and> (1 :: nat) \<le> 2 \<and>
   list_all (\<lambda>v. length v = 2) [[0, 0], [1, 0], [0, 1 :: real]] \<and>
   volume [[0, 0], [1, 0], [0, 1]] = Inr (1 / 2) \<and>
   std_loss [[0, 0], [1, 0], [0, 1]] [[0], [0], [3]] = Inr (3 / 2)"
proof -
  have h1: "length [[0, 0], [1, 0], [0, 1 :: real]] = Suc 2"
    by simp
  have h2: "(1 :: nat) \<le> 2"
    by simp
  have h3: "list_all (\<lambda>v. length v = 2) [[0, 0], [1, 0], [0, 1 :: real]]"
    by simp
  from std_loss_formula [rule_format, OF h1 h2 h3, of "[[0], [0], [3]]"]
  show ?thesis
    using h1 h3 by (simp only: spec_volume_sample spec_std_loss_sample simp_thms)
qed


section \<open>Properties of the integrator\<close>

subsection \<open>Dictionaries, stores and floats\<close>

lemma dict_keys_set: "set (dict_keys (dict_set d k v)) = insert k (set (dict_keys d))"
  by (simp add: dict_keys_def dict_set_def AList.dom_update)

lemma dict_keys_touch: "set (dict_keys (xm_touch d k)) = insert k (set (dict_keys d))"
  by (auto simp: xm_touch_def dict_keys_def dict_has_def)


lemma upd_same: "h < length st \<Longrightarrow> upd h f st ! h = f (st ! h)"
  by (simp add: upd_def)

lemma upd_other: "p \<noteq> h \<Longrightarrow> upd h f st ! p = st ! p"
  by (simp add: upd_def)

lemma upd_length: "length (upd h f st) = length st"
  by (simp add: upd_def)


lemma fl_add_finite: "isfinite a \<Longrightarrow> isfinite b \<Longrightarrow> isfinite (fl_add a b)"
  by (cases a; cases b) simp_all

lemma fl_mul_finite: "isfinite a \<Longrightarrow> isfinite b \<Longrightarrow> isfinite (fl_mul a b)"
  by (cases a; cases b) simp_all

lemma fl_sub_finite: "isfinite a \<Longrightarrow> isfinite b \<Longrightarrow> isfinite (fl_sub a b)"
  by (cases a; cases b) (simp_all add: fl_sub_def)

lemma foldl_add_finite:
  "isfinite a \<Longrightarrow> list_all isfinite xs \<Longrightarrow> isfinite (foldl fl_add a xs)"
  by (induction xs arbitrary: a) (simp_all add: fl_add_finite)

lemma fl_dot_finite: "list_all isfinite v \<Longrightarrow> isfinite (fl_dot row v)"
  unfolding fl_dot_def
  by (rule foldl_add_finite) (auto simp: list_all_iff intro!: fl_mul_finite dest: set_zip_rightD)

lemma matvec_finite: "list_all isfinite v \<Longrightarrow> list_all isfinite (matvec m v)"
  by (simp add: matvec_def list_all_iff fl_dot_finite)

lemma vec_sub_finite:
  "list_all isfinite u \<Longrightarrow> list_all isfinite v \<Longrightarrow> list_all isfinite (vec_sub u v)"
  by (auto simp: vec_sub_def list_all_iff intro!: fl_sub_finite dest: set_zip_leftD set_zip_rightD)

lemma set_prefix_finite:
  "list_all isfinite row \<Longrightarrow> list_all isfinite vals \<Longrightarrow> list_all isfinite (set_prefix row n vals)"
  by (auto simp: set_prefix_def list_all_iff dest: in_set_takeD in_set_dropD)

lemma zero_nans_finite: "list_all isfinite fx \<Longrightarrow> zero_nans fx = ([], fx)"
  by (auto simp: zero_nans_def filter_empty_conv list_all_iff intro!: map_idI)

lemma calc_coeffs_finite:
  "list_all isfinite fx \<Longrightarrow> calc_coeffs T fx d = (matvec (V_inv T ! d) fx, fx)"
  by (simp add: calc_coeffs_def zero_nans_finite)

lemma norm2_finite: "list_all isfinite v \<Longrightarrow> \<exists>n. norm2 v = Inr n"
  by (simp add: norm2_def)

lemma norm2_error: "norm2 v = Inl e \<Longrightarrow> e = ValueError"
  by (auto simp: norm2_def split: if_splits)

lemma foldl_add_replicate:
  "foldl fl_add (Fin a) (replicate n (Fin x)) = Fin (a + real n * x)"
  by (induction n arbitrary: a) (simp_all add: algebra_simps)

lemma fl_dot_replicate:
  "fl_dot (replicate n a) (replicate n (Fin v)) = Fin (real n * (a * v))"
  by (simp add: fl_dot_def zip_replicate foldl_add_replicate)

lemma map_const_upt: "map (\<lambda>k. c) [0..<n] = replicate n c"
  by (simp add: map_replicate_const)


subsection \<open>Rules for invariants\<close>













subsection \<open>The learner after its construction\<close>

lemma update_ival_point_fresh:
  assumes "il_done_points s = []"
  shows "update_ival_point T h x s =
    (Inr (), s\<lparr>il_x_mapping := dict_set (xm_touch (il_x_mapping s) x) x
               (sorted_add (rdepth_less (il_store s)) h (xm_lookup (il_x_mapping s) x)),
             il_not_done_points := insert x (il_not_done_points s),
             il_stack := (if x \<in> il_not_done_points s then il_stack s else il_stack s @ [x])\<rparr>)"
  using assms
  by (simp add: update_ival_point_def bind_def modify_def gets_def dict_get_def insert_absorb)

lemma update_points_fresh:
  assumes "il_done_points s = []"
  shows "\<exists>s'. for_each pts (update_ival_point T h) s = (Inr (), s') \<and>
     il_done_points s' = [] \<and>
     il_not_done_points s' = il_not_done_points s \<union> set pts \<and>
     set (il_stack s') = set (il_stack s) \<union> (set pts - il_not_done_points s) \<and>
     set (dict_keys (il_x_mapping s')) = set (dict_keys (il_x_mapping s)) \<union> set pts \<and>
     il_store s' = il_store s \<and> il_tol s' = il_tol s \<and> il_rtol s' = il_rtol s \<and>
     il_ivals s' = il_ivals s \<and> il_priority_split s' = il_priority_split s \<and>
     il_err_final s' = il_err_final s \<and> il_igral_final s' = il_igral_final s \<and>
     il_first_ival s' = il_first_ival s \<and> il_complete_branches s' = il_complete_branches s \<and>
     il_bounds s' = il_bounds s"
  using assms
proof (induction pts arbitrary: s)
  case Nil
  then show ?case by (simp add: ret_def)
next
  case (Cons x pts)
  let ?s1 = "s\<lparr>il_x_mapping := dict_set (xm_touch (il_x_mapping s) x) x
               (sorted_add (rdepth_less (il_store s)) h (xm_lookup (il_x_mapping s) x)),
             il_not_done_points := insert x (il_not_done_points s),
             il_stack := (if x \<in> il_not_done_points s then il_stack s else il_stack s @ [x])\<rparr>"
  have d1: "il_done_points ?s1 = []" using Cons.prems by simp
  from Cons.IH [OF d1] obtain s' where s': "for_each pts (update_ival_point T h) ?s1 = (Inr (), s')"
     "il_done_points s' = []"
     "il_not_done_points s' = il_not_done_points ?s1 \<union> set pts"
     "set (il_stack s') = set (il_stack ?s1) \<union> (set pts - il_not_done_points ?s1)"
     "set (dict_keys (il_x_mapping s')) = set (dict_keys (il_x_mapping ?s1)) \<union> set pts"
     "il_store s' = il_store ?s1" "il_tol s' = il_tol ?s1" "il_rtol s' = il_rtol ?s1"
     "il_ivals s' = il_ivals ?s1" "il_priority_split s' = il_priority_split ?s1"
     "il_err_final s' = il_err_final ?s1" "il_igral_final s' = il_igral_final ?s1"
     "il_first_ival s' = il_first_ival ?s1" "il_complete_branches s' = il_complete_branches ?s1"
     "il_bounds s' = il_bounds ?s1"
    by blast
  have run: "for_each (x # pts) (update_ival_point T h) s = (Inr (), s')"
    using update_ival_point_fresh [OF Cons.prems, of T h x] s'(1) by (simp add: bind_def)
  show ?case
    apply (rule exI [of _ s'])
    using run s'(2-) by (auto simp: dict_keys_set dict_keys_touch)
qed

lemma il_init_fresh:
  assumes "tol \<noteq> None \<or> rtol \<noteq> None"
  shows "\<exists>s. il_init T (a, b) tol rtol = Inr s \<and>
     il_done_points s = [] \<and>
     il_not_done_points s = set (snd (make_first T a b tol)) \<and>
     set (il_stack s) = set (snd (make_first T a b tol)) \<and>
     set (dict_keys (il_x_mapping s)) = set (snd (make_first T a b tol)) \<and>
     il_store s = [fst (make_first T a b tol)] \<and> il_tol s = tol \<and> il_rtol s = rtol \<and>
     il_ivals s = [0] \<and> il_priority_split s = [] \<and>
     il_err_final s = Fin 0 \<and> il_igral_final s = Fin 0 \<and>
     il_first_ival s = 0 \<and> il_complete_branches s = [] \<and> il_bounds s = (a, b)"
proof -
  obtain ival pts where mf: "make_first T a b tol = (ival, pts)"
    by (cases "make_first T a b tol")
  let ?s0 = "\<lparr> il_bounds = (a, b), il_tol = tol, il_rtol = rtol,
                   il_priority_split = [], il_ivals = [], il_done_points = [],
                   il_not_done_points = {}, il_stack = [],
                   il_err_final = Fin 0, il_igral_final = Fin 0,
                   il_x_mapping = [], il_first_ival = 0, il_complete_branches = [],
                   il_store = [ival] \<rparr>"
  have nd: "\<not> iv_discard ival"
    using mf by (auto simp: make_first_def new_interval_def Let_def)
  have "il_done_points ?s0 = []" by simp
  from update_points_fresh [OF this, of pts T 0] obtain s' where
    s': "for_each pts (update_ival_point T 0) ?s0 = (Inr (), s')"
     "il_done_points s' = []"
     "il_not_done_points s' = il_not_done_points ?s0 \<union> set pts"
     "set (il_stack s') = set (il_stack ?s0) \<union> (set pts - il_not_done_points ?s0)"
     "set (dict_keys (il_x_mapping s')) = set (dict_keys (il_x_mapping ?s0)) \<union> set pts"
     "il_store s' = il_store ?s0" "il_tol s' = il_tol ?s0" "il_rtol s' = il_rtol ?s0"
     "il_ivals s' = il_ivals ?s0" "il_priority_split s' = il_priority_split ?s0"
     "il_err_final s' = il_err_final ?s0" "il_igral_final s' = il_igral_final ?s0"
     "il_first_ival s' = il_first_ival ?s0" "il_complete_branches s' = il_complete_branches ?s0"
     "il_bounds s' = il_bounds ?s0"
    by blast
  have u: "update_ival T 0 pts ?s0 = (Inr (), ivals_add 0 s')"
    using nd s'(1) by (simp add: update_ival_def bind_def gets_def modify_def)
  have i: "il_init T (a, b) tol rtol = Inr ((ivals_add 0 s')\<lparr>il_first_ival := 0, il_complete_branches := []\<rparr>)"
    using assms mf u by (auto simp: il_init_def)
  show ?thesis
    apply (rule exI [of _ "(ivals_add 0 s')\<lparr>il_first_ival := 0, il_complete_branches := []\<rparr>"])
    using i s'(2-) mf by (simp add: ivals_add_def sorted_add_def dict_keys_def)
qed

lemma fresh_init:
  "il_init sample_tables (0, 1) (Some (1 / 1000)) None = Inr fresh_learner"
  using il_init_fresh [of "Some (1 / 1000)" None sample_tables 0 1]
  by (auto simp: fresh_learner_def)


lemma sample_points: "snd (make_first sample_tables 0 1 tol) = map (\<lambda>k. real k / 32) [0..<33]"
  by (simp add: make_first_def points_def sample_tables_def sample_sizes_def new_interval_def
        Let_def field_simps)

lemma fresh_facts:
  "il_tol fresh_learner = Some (1 / 1000)" "il_done_points fresh_learner = []"
  "set (il_stack fresh_learner) = set (map (\<lambda>k. real k / 32) [0..<33])"
  "il_not_done_points fresh_learner = set (map (\<lambda>k. real k / 32) [0..<33])"
  "il_store fresh_learner = [fst (make_first sample_tables 0 1 (Some (1 / 1000)))]"
  "il_first_ival fresh_learner = 0" "il_complete_branches fresh_learner = []"
  using il_init_fresh [of "Some (1 / 1000)" None sample_tables 0 1] fresh_init
  by (auto simp: sample_points)






subsection \<open>The last value of a constant function\<close>

text \<open>
  With the sample tables, telling the last of the 33 values of the constant function 1
  processes the first interval, finds it below machine precision and retires it:
  \<open>add_point\<close> takes \<open>almost_learner\<close> to \<open>retired_learner\<close>.
\<close>

lemma every_other_replicate: "every_other (replicate (Suc (2 * n)) x) = replicate (Suc n) x"
  by (induction n) simp_all

lemma sample_shape:
  "ns sample_tables ! 3 = 33" "ns sample_tables ! 2 = 17"
  "V_inv sample_tables ! 3 = replicate 33 (sqrt 2 / 33) # replicate 32 (replicate 33 0)"
  "V_inv sample_tables ! 2 = replicate 17 (sqrt 2 / 17) # replicate 16 (replicate 17 0)"
  "Vcond sample_tables ! 3 = 1"
  by (simp_all add: sample_tables_def sample_sizes_def)

lemma matvec_sample:
  "matvec (replicate n (sqrt 2 / real n) # replicate m (replicate n 0)) (replicate n (Fin 1))
     = Fin (if n = 0 then 0 else sqrt 2) # replicate m (Fin 0)"
  by (simp add: matvec_def fl_dot_replicate)

lemma norm2_zero: "norm2 (replicate n (Fin 0)) = Inr (Fin 0)"
  by (simp add: norm2_def list_all_iff foldl_add_replicate)

lemma norm2_head: "norm2 (Fin x # replicate n (Fin 0)) = Inr (Fin \<bar>x\<bar>)"
  by (simp add: norm2_def list_all_iff foldl_add_replicate)

lemma vec_sub_self: "list_all isfinite v \<Longrightarrow> vec_sub v v = replicate (length v) (Fin 0)"
  by (induction v) (auto simp: vec_sub_def fl_sub_def elim: isfinite.elims)

lemma told_fx: "map snd (told_points n) = replicate n (Fin 1)"
  by (simp add: told_points_def comp_def map_replicate_const)

lemma almost_facts:
  "iv_parent almost_interval = None" "iv_depth almost_interval = 3"
  "iv_a almost_interval = 0" "iv_b almost_interval = 1"
  "iv_c almost_interval = [replicate 33 (Fin 0), replicate 33 (Fin 0), replicate 33 (Fin 0), replicate 33 (Fin 0)]"
  "iv_est_err almost_interval = PInf" "iv_fx almost_interval = None"
  "\<not> iv_discard almost_interval"
  by (simp_all add: almost_interval_def make_first_def new_interval_def sample_tables_def sample_sizes_def Let_def)

lemma pmf:
  "process_make_first sample_tables 0 [almost_interval\<lparr>iv_done_points := told_points 33\<rparr>]
    = (Inr (), [retired_interval\<lparr>iv_est_err := PInf\<rparr>])"
proof -
  have r: "replicate 16 (Fin 0) @ replicate 16 (Fin 0) = replicate 32 (Fin 0)"
    by (simp flip: replicate_add)
  have e: "every_other (replicate 33 (Fin 1)) = replicate 17 (Fin 1)"
    using every_other_replicate [of 16 "Fin 1"] by simp
  have z: "zero_nans (replicate 33 (Fin 1)) = ([], replicate 33 (Fin 1))"
    by (rule zero_nans_finite) (simp add: list_all_iff)
  have m3: "matvec (replicate 33 (sqrt 2 / 33) # replicate 32 (replicate 33 0))
              (replicate 33 (Fin 1)) = Fin (sqrt 2) # replicate 32 (Fin 0)"
    using matvec_sample [of 33 32] by simp
  have m2: "matvec (replicate 17 (sqrt 2 / 17) # replicate 16 (replicate 17 0))
              (replicate 17 (Fin 1)) = Fin (sqrt 2) # replicate 16 (Fin 0)"
    using matvec_sample [of 17 16] by simp
  have vs: "vec_sub (Fin (sqrt 2) # replicate 32 (Fin 0)) (Fin (sqrt 2) # replicate 32 (Fin 0)) = replicate 33 (Fin 0)"
    using vec_sub_self [of "Fin (sqrt 2) # replicate 32 (Fin 0)"] by (simp add: list_all_iff)
  show ?thesis
    apply (simp add: process_make_first_def fx_array_def told_fx z almost_facts Let_def upd_def
        sample_shape e m3 m2 set_row_def set_prefix_def put_nans_def r vs norm2_zero norm2_head fl_gt_def)
    apply (simp add: retired_interval_def r)
    apply (rule interval.equality; simp add: almost_facts)
    done
qed

lemma cp:
  "complete_process sample_tables 0 [almost_interval\<lparr>iv_done_points := told_points 33\<rparr>]
    = (Inr (False, True), [retired_interval])"
proof -
  have e: "(0 :: real) < eps" by (simp add: eps_def)
  have r1: "[retired_interval\<lparr>iv_est_err := PInf\<rparr>] ! 0 = retired_interval\<lparr>iv_est_err := PInf\<rparr>"
    by simp
  have ri: "iv_err retired_interval = Fin 0" "iv_igral retired_interval = Some (Fin 1)"
     "iv_parent retired_interval = None" "iv_depth retired_interval = 3"
    by (simp_all add: retired_interval_def almost_facts)
  have eq: "retired_interval\<lparr>iv_est_err := Fin 0\<rparr> = retired_interval"
    by (simp add: retired_interval_def)
  show ?thesis
    using e
    by (simp add: complete_process_def bind_def almost_facts pmf ret_def modify_def upd_def ri eq
        sample_shape)
qed













subsection \<open>Unknown and known points\<close>

lemma add_point_unknown:
  "\<not> dict_has (il_x_mapping s) p \<Longrightarrow> il_add_point T p v s = (Inl ValueError, s)"
  by (simp add: il_add_point_def bind_def gets_def raise_def)

lemma tell_known:
  "dict_has (tl_data t) q \<Longrightarrow> tell env q w t = (Inr (), t)"
  by (simp add: tell_def bind_def gets_def ret_def)

lemma retired_unknown: "\<not> dict_has (il_x_mapping retired_learner) 2"
  by (auto simp: retired_learner_def almost_learner_def dict_has_def dict_keys_def)


text \<open>
  Claim C4. For every point: when it is not a key of \<open>x_mapping\<close> (it was never
  dispensed by the integrator), the integrator's \<open>tell\<close>, the method \<open>add_point\<close>,
  raises \<open>ValueError\<close> and leaves the learner as it was; when it is already a key of
  the triangulator's \<open>data\<close>, the triangulator's \<open>tell\<close> returns and leaves the
  learner as it was, so \<open>data\<close>, \<open>_pending\<close> and the triangulation are unchanged.
\<close>

theorem tell_rejections:
  "(\<not> dict_has (il_x_mapping s) p \<longrightarrow> il_add_point T p v s = (Inl ValueError, s))
   \<and> (dict_has (tl_data t) q \<longrightarrow> tell env q w t = (Inr (), t))"
  by (simp add: add_point_unknown tell_known)


theorem tell_rejections_witness:
  "\<not> dict_has (il_x_mapping retired_learner) 2 \<and>
   il_add_point sample_tables 2 (Fin 0) retired_learner = (Inl ValueError, retired_learner) \<and>
   dict_has (tl_data two_told) [0, 0] \<and>
   tell sample_env [0, 0] (Some [5]) two_told = (Inr (), two_told)"
proof -
  have k: "dict_has (tl_data two_told) [0, 0]"
    by (simp add: two_told_def dict_has_def dict_keys_def)
  from tell_rejections [of retired_learner 2 sample_tables "Fin 0" two_told "[0, 0]" sample_env "Some [5]"]
  show ?thesis using retired_unknown k by simp
qed


subsection \<open>remove_unfinished\<close>

text \<open>
  Claim C5, as the code has it. The integrator's \<open>remove_unfinished\<close> does nothing:
  it returns and leaves the whole learner as it was, \<open>not_done_points\<close> and \<open>_stack\<close>
  included. The triangulator's \<open>remove_unfinished\<close> empties \<open>_pending\<close>,
  \<open>_subtriangulations\<close> and \<open>_pending_to_simplex\<close> and changes nothing else, so the
  told data is unchanged.
\<close>

theorem remove_unfinished_effect:
  "il_remove_unfinished s = (Inr (), s) \<and>
   tl_remove_unfinished t
     = (Inr (), t\<lparr>tl_pending := {}, tl_subtriangulations := [], tl_pending_to_simplex := []\<rparr>)"
  by (simp add: il_remove_unfinished_def ret_def tl_remove_unfinished_def modify_def)


text \<open>
  Claim C5 as stated fails for the integrator: on the learner right after its
  construction, \<open>_stack\<close> and \<open>not_done_points\<close> hold the 33 abscissae of the first
  interval, and they still do after \<open>remove_unfinished\<close>.
\<close>

theorem remove_unfinished_keeps_stack:
  "il_stack (snd (il_remove_unfinished fresh_learner)) \<noteq> [] \<and>
   il_not_done_points (snd (il_remove_unfinished fresh_learner)) \<noteq> {}"
proof -
  have "set (il_stack fresh_learner) \<noteq> {}"
    by (simp add: fresh_facts)
  then have "il_stack fresh_learner \<noteq> []"
    by auto
  then show ?thesis
    by (simp add: il_remove_unfinished_def ret_def fresh_facts)
qed


subsection \<open>The reported integral and error\<close>













lemma drain:
  assumes c: "complete T (il_store s0 ! h)" "\<not> ival_done T (il_store s0 ! h)"
      "\<not> iv_discard (il_store s0 ! h)"
    and s0: "s0 = s\<lparr>il_store :=
             upd h (\<lambda>iv. iv\<lparr>iv_done_points := sorted_dict_set (iv_done_points iv) pt val\<rparr>)
               (il_store s)\<rparr>"
    and cp: "complete_process T h (il_store s0) = (Inr (force_split, True), st')"
    and g: "iv_igral (st' ! h) = Some g"
  shows "il_igral_final (snd (add_point_ival T pt val h s)) = fl_add (il_igral_final s) g \<and>
         il_err_final (snd (add_point_ival T pt val h s))
           = fl_add (il_err_final s) (iv_err (st' ! h)) \<and>
         il_store (snd (add_point_ival T pt val h s)) = st' \<and>
         h \<notin> set (il_ivals (snd (add_point_ival T pt val h s)))"
  using c cp g unfolding s0
  by (simp add: add_point_ival_def bind_def modify_def gets_def on_store_def ivals_discard_def
        ret_def)










subsection \<open>loss\<close>








subsection \<open>process_split\<close>

lemma shift_matrix_error: "shift_matrix T h st = Inl e \<Longrightarrow> e = AssertionError"
  by (auto simp: shift_matrix_def Let_def split: option.splits if_splits)

lemma process_split_ndiv:
  assumes run: "process_split T h st = (r, st')"
    and h: "h < length st" and par: "iv_parent (st ! h) = Some p" and ph: "p \<noteq> h"
    and r1: "r \<noteq> Inl AssertionError" and r2: "r \<noteq> Inl ValueError"
  shows "iv_ndiv (st' ! h)
           = iv_ndiv (st ! p) + ndiv_increment (iv_c (st ! p) ! 0 ! 0) (iv_c (st' ! h) ! 0 ! 0)
         \<and> (r = Inl (DivergentIntegralError h)
              \<longleftrightarrow> ndiv_max < iv_ndiv (st' ! h) \<and> iv_rdepth (st' ! h) < 2 * iv_ndiv (st' ! h))
         \<and> (r \<noteq> Inl (DivergentIntegralError h) \<longrightarrow> r = Inr ())"
proof -
  obtain c_new fx where cc: "calc_coeffs T (fx_array (st ! h)) (iv_depth (st ! h)) = (c_new, fx)"
    by (cases "calc_coeffs T (fx_array (st ! h)) (iv_depth (st ! h))")
  let ?d = "iv_depth (st ! h)"
  let ?c1 = "set_row ?d (ns T ! ?d) c_new (iv_c (st ! h))"
  let ?st1 = "upd h (\<lambda>iv. iv\<lparr>iv_c := ?c1, iv_fx := Some fx\<rparr>) st"
  obtain tm where tm: "shift_matrix T h ?st1 = Inr tm"
    using run r1 cc par by (cases "shift_matrix T h ?st1") (auto simp: process_split_def Let_def dest: shift_matrix_error)
  let ?c_old = "matvec tm (iv_c (?st1 ! p) ! iv_depth (?st1 ! p))"
  let ?st2 = "upd h (\<lambda>iv. iv\<lparr>iv_c_old := ?c_old\<rparr>) ?st1"
  obtain c_diff where cd: "norm2 (vec_sub (?c1 ! ?d) ?c_old) = Inr c_diff"
    using run r2 cc par tm by (cases "norm2 (vec_sub (?c1 ! ?d) ?c_old)") (auto simp: process_split_def Let_def dest: norm2_error)
  let ?ndiv = "iv_ndiv (?st2 ! p) + ndiv_increment (iv_c (?st2 ! p) ! 0 ! 0) (?c1 ! 0 ! 0)"
  let ?st3 = "upd h (\<lambda>iv. iv\<lparr>
                                 iv_err := fl_mul (Fin (iv_b (st ! h) - iv_a (st ! h))) c_diff,
                                 iv_igral := Some (fl_div (fl_mul (Fin (iv_b (st ! h) - iv_a (st ! h))) (?c1 ! ?d ! 0))
                                                          (Fin (sqrt 2))),
                                 iv_ndiv := ?ndiv\<rparr>) ?st2"
  have res: "(r, st') = (if ?ndiv > ndiv_max \<and> 2 * ?ndiv > iv_rdepth (st ! h)
                            then (Inl (DivergentIntegralError h), ?st3)
                            else (Inr (), ?st3))"
    using run cc par tm cd by (simp add: process_split_def Let_def)
  have st': "st' = ?st3" using res by (simp split: if_splits)
  have p2: "?st2 ! p = st ! p" using ph by (simp add: upd_other)
  have h3: "st' ! h = (st ! h)\<lparr>iv_c := ?c1, iv_fx := Some fx, iv_c_old := ?c_old,
                                 iv_err := fl_mul (Fin (iv_b (st ! h) - iv_a (st ! h))) c_diff,
                                 iv_igral := Some (fl_div (fl_mul (Fin (iv_b (st ! h) - iv_a (st ! h))) (?c1 ! ?d ! 0))
                                                          (Fin (sqrt 2))),
                                 iv_ndiv := ?ndiv\<rparr>"
    using h by (simp add: st' upd_same upd_length)
  show ?thesis
    using res by (auto simp: h3 p2 split: if_splits)
qed

lemma process_split_c:
  assumes "h < length st"
  shows "iv_c (snd (process_split T h st) ! h)
           = set_row (iv_depth (st ! h)) (ns T ! iv_depth (st ! h))
               (fst (calc_coeffs T (fx_array (st ! h)) (iv_depth (st ! h)))) (iv_c (st ! h))"
  using assms
  by (auto simp: process_split_def Let_def upd_same upd_length
      split: prod.splits option.splits sum.splits)

lemma process_split_rdepth:
  assumes "h < length st"
  shows "iv_rdepth (snd (process_split T h st) ! h) = iv_rdepth (st ! h)"
  using assms
  by (auto simp: process_split_def Let_def upd_same upd_length
      split: prod.splits option.splits sum.splits)

lemma process_split_finite:
  assumes h: "h < length st" and par: "iv_parent (st ! h) = Some p" and ph: "p \<noteq> h"
    and lr: "(iv_a (st ! h) = iv_a (st ! p)) \<noteq> (iv_b (st ! h) = iv_b (st ! p))"
    and fx: "list_all isfinite (fx_array (st ! h))"
    and d: "iv_depth (st ! h) < length (iv_c (st ! h))"
    and row: "list_all isfinite (iv_c (st ! h) ! iv_depth (st ! h))"
    and prow: "list_all isfinite (iv_c (st ! p) ! iv_depth (st ! p))"
  shows "fst (process_split T h st) \<noteq> Inl AssertionError \<and>
         fst (process_split T h st) \<noteq> Inl ValueError"
proof -
  let ?d = "iv_depth (st ! h)"
  let ?c_new = "matvec (V_inv T ! ?d) (fx_array (st ! h))"
  let ?c1 = "set_row ?d (ns T ! ?d) ?c_new (iv_c (st ! h))"
  let ?st1 = "upd h (\<lambda>iv. iv\<lparr>iv_c := ?c1, iv_fx := Some (fx_array (st ! h))\<rparr>) st"
  let ?tm = "if iv_a (st ! h) = iv_a (st ! p) then T_left T else T_right T"
  have cc: "calc_coeffs T (fx_array (st ! h)) ?d = (?c_new, fx_array (st ! h))"
    using fx by (rule calc_coeffs_finite)
  have sm: "shift_matrix T h ?st1 = Inr ?tm"
    using h par ph lr by (simp add: shift_matrix_def upd_same upd_other Let_def)
  let ?c_old = "matvec ?tm (iv_c (?st1 ! p) ! iv_depth (?st1 ! p))"
  have "list_all isfinite (?c1 ! ?d)"
    using d row fx by (simp add: set_row_def set_prefix_finite matvec_finite)
  moreover have "list_all isfinite ?c_old"
    using prow ph by (simp add: upd_other matvec_finite)
  ultimately have "list_all isfinite (vec_sub (?c1 ! ?d) ?c_old)"
    by (rule vec_sub_finite)
  then obtain n where n: "norm2 (vec_sub (?c1 ! ?d) ?c_old) = Inr n"
    using norm2_finite by blast
  show ?thesis
    using cc par sm n by (simp add: process_split_def Let_def)
qed

lemma split_store_facts:
  "length split_store = 3"
  "iv_parent (split_store ! Suc 0) = Some 0"
  "iv_depth (split_store ! Suc 0) = 0"
  "iv_depth (split_store ! 0) = 3"
  "iv_a (split_store ! Suc 0) = 0" "iv_b (split_store ! Suc 0) = 1 / 2"
  "iv_a (split_store ! 0) = 0" "iv_b (split_store ! 0) = 1"
  "iv_ndiv (split_store ! 0) = 0"
  "iv_rdepth (split_store ! Suc 0) = 2"
  "fx_array (split_store ! Suc 0) = replicate 5 (Fin (- 3))"
  "iv_c (split_store ! Suc 0)
     = [replicate 33 (Fin 0), replicate 33 (Fin 0), replicate 33 (Fin 0), replicate 33 (Fin 0)]"
  "iv_c (split_store ! 0)
     = ((replicate 33 (Fin 0))[0 := Fin (sqrt 2)]) # replicate 3 (replicate 33 (Fin 0))"
  by (simp_all add: split_store_def new_interval_def sample_tables_def sample_sizes_def
        fx_array_def comp_def map_const_upt)

lemma split_parent_c00: "iv_c (split_store ! 0) ! 0 ! 0 = Fin (sqrt 2)"
  by (simp add: split_store_facts)

lemma split_child_c00:
  "iv_c (snd (process_split sample_tables 1 split_store) ! 1) ! 0 ! 0 = Fin (- 3 * sqrt 2)"
proof -
  have v: "V_inv sample_tables ! 0 = replicate 5 (sqrt 2 / 5) # replicate 4 (replicate 5 0)"
    by (simp add: sample_tables_def sample_sizes_def)
  have n: "ns sample_tables ! 0 = 5"
    by (simp add: sample_tables_def sample_sizes_def)
  have f: "list_all isfinite (replicate 5 (Fin (- 3)))"
    by (simp add: list_all_iff)
  have "iv_c (snd (process_split sample_tables 1 split_store) ! 1)
          = set_row 0 5 (matvec (replicate 5 (sqrt 2 / 5) # replicate 4 (replicate 5 0))
                           (replicate 5 (Fin (- 3))))
              [replicate 33 (Fin 0), replicate 33 (Fin 0), replicate 33 (Fin 0),
               replicate 33 (Fin 0)]"
    by (simp add: process_split_c split_store_facts calc_coeffs_finite [OF f] v n)
  then show ?thesis
    by (simp add: set_row_def set_prefix_def matvec_def fl_dot_replicate)
qed

lemma split_no_failure:
  "fst (process_split sample_tables 1 split_store) \<noteq> Inl AssertionError \<and>
   fst (process_split sample_tables 1 split_store) \<noteq> Inl ValueError"
  by (rule process_split_finite [where p = 0])
     (simp_all add: split_store_facts list_all_iff set_list_update)


text \<open>
  Claim C3, as the code has it. When \<open>process_split\<close> gets past its assertion and the
  norm (it raises neither \<open>AssertionError\<close> nor \<open>ValueError\<close>), the interval's
  \<open>ndiv\<close> is the parent's plus 1 if \<open>|parent.c[0,0]| > 0\<close> and the signed ratio
  \<open>c[0,0] / parent.c[0,0] > 2\<close>, and the parent's otherwise; it raises
  \<open>DivergentIntegralError\<close> with the interval if and only if afterwards
  \<open>ndiv > 20\<close> and \<open>2 * ndiv > rdepth\<close>, and returns otherwise.
\<close>

theorem process_split_ndiv_rule:
  "process_split T h st = (r, st') \<longrightarrow> h < length st \<longrightarrow>
   iv_parent (st ! h) = Some p \<longrightarrow> p \<noteq> h \<longrightarrow>
   r \<noteq> Inl AssertionError \<longrightarrow> r \<noteq> Inl ValueError \<longrightarrow>
     iv_ndiv (st' ! h)
       = iv_ndiv (st ! p)
         + (if fl_gt (fl_abs (iv_c (st ! p) ! 0 ! 0)) (Fin 0) \<and>
               fl_gt (fl_div (iv_c (st' ! h) ! 0 ! 0) (iv_c (st ! p) ! 0 ! 0)) (Fin 2)
            then 1 else 0)
     \<and> (r = Inl (DivergentIntegralError h)
          \<longleftrightarrow> 20 < iv_ndiv (st' ! h) \<and> iv_rdepth (st ! h) < 2 * iv_ndiv (st' ! h))
     \<and> (r \<noteq> Inl (DivergentIntegralError h) \<longrightarrow> r = Inr ())"
proof (intro impI)
  assume a: "process_split T h st = (r, st')" "h < length st" "iv_parent (st ! h) = Some p"
    "p \<noteq> h" "r \<noteq> Inl AssertionError" "r \<noteq> Inl ValueError"
  have rd: "iv_rdepth (st' ! h) = iv_rdepth (st ! h)"
    using process_split_rdepth [OF a(2), of T] a(1) by simp
  from process_split_ndiv [OF a]
  show "iv_ndiv (st' ! h)
       = iv_ndiv (st ! p)
         + (if fl_gt (fl_abs (iv_c (st ! p) ! 0 ! 0)) (Fin 0) \<and>
               fl_gt (fl_div (iv_c (st' ! h) ! 0 ! 0) (iv_c (st ! p) ! 0 ! 0)) (Fin 2)
            then 1 else 0)
     \<and> (r = Inl (DivergentIntegralError h)
          \<longleftrightarrow> 20 < iv_ndiv (st' ! h) \<and> iv_rdepth (st ! h) < 2 * iv_ndiv (st' ! h))
     \<and> (r \<noteq> Inl (DivergentIntegralError h) \<longrightarrow> r = Inr ())"
    by (simp add: ndiv_increment_def ndiv_max_def rd)
qed


theorem process_split_ndiv_rule_witness:
  "(1 :: nat) < length split_store \<and> iv_parent (split_store ! 1) = Some 0 \<and>
   fst (process_split sample_tables 1 split_store) = Inr () \<and>
   iv_ndiv (snd (process_split sample_tables 1 split_store) ! 1) = 0"
proof -
  obtain r st' where run: "process_split sample_tables 1 split_store = (r, st')"
    by (cases "process_split sample_tables 1 split_store")
  have h: "(1 :: nat) < length split_store" and p: "iv_parent (split_store ! 1) = Some 0"
    and ph: "(0 :: nat) \<noteq> 1"
    by (simp_all add: split_store_facts)
  have r1: "r \<noteq> Inl AssertionError" and r2: "r \<noteq> Inl ValueError"
    using split_no_failure run by simp_all
  have c: "iv_c (st' ! Suc 0) ! 0 ! 0 = Fin (- 3 * sqrt 2)"
    using split_child_c00 run by simp
  from process_split_ndiv_rule [rule_format, OF run h p ph r1 r2]
  show ?thesis
    using h p run by (simp add: c split_store_facts fl_gt_def)
qed


text \<open>
  Claim C3 as stated fails: it compares the ratio of the absolute values. In the sample
  store the parent's leading coefficient is \<open>sqrt 2\<close> and the child's is
  \<open>-3 * sqrt 2\<close>: the ratio of the absolute values is 3, which is more than 2, and
  \<open>ndiv\<close> stays the parent's, because the signed ratio is \<open>-3\<close>.
\<close>

theorem ndiv_ignores_negative_ratio:
  "fl_gt (fl_abs (iv_c (split_store ! 0) ! 0 ! 0)) (Fin 0) \<and>
   fl_gt (fl_div (fl_abs (iv_c (snd (process_split sample_tables 1 split_store) ! 1) ! 0 ! 0))
                 (fl_abs (iv_c (split_store ! 0) ! 0 ! 0))) (Fin 2) \<and>
   iv_ndiv (snd (process_split sample_tables 1 split_store) ! 1) = iv_ndiv (split_store ! 0)"
proof -
  obtain r st' where run: "process_split sample_tables 1 split_store = (r, st')"
    by (cases "process_split sample_tables 1 split_store")
  have h: "(1 :: nat) < length split_store" and p: "iv_parent (split_store ! 1) = Some 0"
    and ph: "(0 :: nat) \<noteq> 1"
    by (simp_all add: split_store_facts)
  have r1: "r \<noteq> Inl AssertionError" and r2: "r \<noteq> Inl ValueError"
    using split_no_failure run by simp_all
  have c: "iv_c (st' ! Suc 0) ! 0 ! 0 = Fin (- 3 * sqrt 2)"
    using split_child_c00 run by simp
  have n: "iv_ndiv (st' ! 1) = iv_ndiv (split_store ! 0)"
    using process_split_ndiv [OF run h p ph r1 r2]
    by (simp add: c split_store_facts ndiv_increment_def fl_gt_def)
  show ?thesis
    using n run by (simp add: c split_parent_c00 fl_gt_def)
qed


subsection \<open>Pending and told points\<close>















































end
